theory Spec2Isabelle
  imports Complex_Main
begin

section \<open>The football prediction engine (prediction\_engine.py)\<close>

text \<open>
  The engine is a pure pipeline over Python floats. Floats are modelled by the real
  numbers they approximate, with two exceptions where a double behaves differently from
  a real number in a way that changes what the engine returns:
  \<^item> underflow: a Poisson mass, or a product of two masses, whose exact value is at most
    half the least positive double is the double \<open>0.0\<close>;
  \<^item> a division by the double \<open>0.0\<close> in numpy arithmetic gives a non-finite value
    (\<open>nan\<close> for \<open>0.0 / 0.0\<close>), which every later operation hands on.
  Apart from that the theorems are about the exact arithmetic of the formulas in the
  source, not about the last bits of an IEEE double. The library functions
  \<open>scipy.stats.poisson.pmf\<close> and \<open>scipy.stats.poisson.cdf\<close> return \<open>nan\<close> for a
  negative rate, so the model stands for them only at rates \<open>\<ge> 0\<close> and every theorem
  that goes through them assumes such rates.
\<close>

subsection \<open>Numbers, rounding and formatting\<close>

text \<open>
  \<open>round(x, ndigits)\<close> rounds to the nearest multiple of \<open>10 ^ - ndigits\<close>, a tie
  going to the even neighbour (Python's \<open>round\<close> and numpy's \<open>rint\<close> agree on that).
\<close>

definition round_half_even :: "real \<Rightarrow> int" where
  "round_half_even x =
     (let f = \<lfloor>x\<rfloor>; d = x - of_int f
      in if d < 1 / 2 then f
         else if 1 / 2 < d then f + 1
         else if even f then f else f + 1)"

definition py_round :: "real \<Rightarrow> nat \<Rightarrow> real" where
  "py_round x ndigits = of_int (round_half_even (x * 10 ^ ndigits)) / 10 ^ ndigits"

text \<open>Decimal digits of a natural number, as \<open>f'{n}'\<close> prints an \<open>int\<close>.\<close>

definition digit_char :: "nat \<Rightarrow> char" where
  "digit_char d = char_of (48 + d)"

fun str_nat :: "nat \<Rightarrow> string" where
  "str_nat n = (if n < 10 then [digit_char n] else str_nat (n div 10) @ [digit_char (n mod 10)])"

text \<open>
  \<open>f'{threshold}'\<close> for a non-negative float with one decimal digit (the thresholds
  \<open>1.5\<close>, \<open>2.5\<close>, \<open>3.5\<close>): integer part, point, first decimal.
\<close>

definition str_float1 :: "real \<Rightarrow> string" where
  "str_float1 t = str_nat (nat \<lfloor>t\<rfloor>) @ ''.'' @ str_nat (nat (\<lfloor>t * 10\<rfloor> mod 10))"

subsection \<open>The Poisson distribution of scipy.stats\<close>

text \<open>
  The least positive double is \<open>2 ^ - 1074\<close>. A result whose exact value is at most half
  of it in absolute value is rounded to \<open>0.0\<close>; any other result is taken as exact.
\<close>

definition underflow_bound :: real where
  "underflow_bound = 1 / 2 ^ 1075"

definition underflow :: "real \<Rightarrow> real" where
  "underflow x = (if \<bar>x\<bar> \<le> underflow_bound then 0 else x)"

text \<open>The product of two doubles that are Poisson masses.\<close>

definition fl_mul :: "real \<Rightarrow> real \<Rightarrow> real" where
  "fl_mul x y = underflow (x * y)"

text \<open>
  A numpy division: by \<open>0.0\<close> it gives no number (\<open>nan\<close> or an infinity, here \<open>None\<close>)
  and does not raise.
\<close>

definition np_divide :: "real \<Rightarrow> real \<Rightarrow> real option" where
  "np_divide x y = (if y = 0 then None else Some (x / y))"

text \<open>
  The Poisson mass function, and \<open>poisson.pmf\<close>, the double that stands for it. The
  distribution function \<open>poisson.cdf\<close> enters the engine only as \<open>1 - cdf\<close>, where a
  value below the least double and \<open>0.0\<close> give the same result: it is taken as exact.
\<close>

definition poisson_mass :: "nat \<Rightarrow> real \<Rightarrow> real" where
  "poisson_mass k mu = exp (- mu) * mu ^ k / fact k"

definition poisson_pmf :: "nat \<Rightarrow> real \<Rightarrow> real" where
  "poisson_pmf k mu = underflow (poisson_mass k mu)"

definition poisson_cdf :: "real \<Rightarrow> real \<Rightarrow> real" where
  "poisson_cdf x mu = (if x < 0 then 0 else (\<Sum>k = 0..<Suc (nat \<lfloor>x\<rfloor>). poisson_mass k mu))"

subsection \<open>Data model\<close>

record team_data =
  xg :: real
  total_shots :: real
  shots_on_target :: real
  xgot :: real
  xa :: real
  passes_rate :: real
  tackles_rate :: real
  ball_recoveries :: real
  xgot_conceded :: real

datatype py_error = ZeroDivisionError

text \<open>A percentage that may be \<open>nan\<close> (\<open>None\<close>).\<close>

record win_probs =
  home_win :: "real option"
  draw :: "real option"
  away_win :: "real option"

record btts_result =
  btts_prediction :: string
  btts_probability :: real

record over_under_entry =
  ou_over :: real
  ou_under :: real
  ou_prediction :: string

record scoreline_entry =
  sl_scoreline :: string
  sl_probability :: real

record expected_goals_result =
  eg_home :: real
  eg_away :: real
  eg_total :: real

record match_prediction =
  win_probabilities :: win_probs
  btts :: btts_result
  over_under :: "string \<rightharpoonup> over_under_entry"
  scorelines :: "scoreline_entry list"
  expected_goals :: expected_goals_result

text \<open>A record all of whose nine fields are non-negative: the engine's valid input.\<close>

definition valid_team :: "team_data \<Rightarrow> bool" where
  "valid_team t \<longleftrightarrow>
     0 \<le> xg t \<and> 0 \<le> total_shots t \<and> 0 \<le> shots_on_target t \<and> 0 \<le> xgot t \<and> 0 \<le> xa t \<and>
     0 \<le> passes_rate t \<and> 0 \<le> tackles_rate t \<and> 0 \<le> ball_recoveries t \<and> 0 \<le> xgot_conceded t"

subsection \<open>Team strength (calculate\_team\_strength)\<close>

text \<open>The weight tables set up by \<open>__init__\<close>, one constant per key.\<close>

definition offensive_weights_xg :: real where "offensive_weights_xg = 0.30"
definition offensive_weights_total_shots :: real where "offensive_weights_total_shots = 0.08"
definition offensive_weights_shots_on_target :: real where "offensive_weights_shots_on_target = 0.12"
definition offensive_weights_xgot :: real where "offensive_weights_xgot = 0.22"
definition offensive_weights_xa :: real where "offensive_weights_xa = 0.13"
definition offensive_weights_passes_rate :: real where "offensive_weights_passes_rate = 0.15"

definition defensive_weights_xgot_conceded :: real where "defensive_weights_xgot_conceded = 0.40"
definition defensive_weights_tackles_rate :: real where "defensive_weights_tackles_rate = 0.30"
definition defensive_weights_ball_recoveries :: real where "defensive_weights_ball_recoveries = 0.30"

text \<open>
  The only division by a computed value is \<open>1 / (xgot_conceded + 0.1)\<close>; Python raises
  \<open>ZeroDivisionError\<close> when the divisor is zero.
\<close>

definition calculate_team_strength :: "team_data \<Rightarrow> py_error + real \<times> real" where
  "calculate_team_strength td =
     (let offensive_score =
            xg td * offensive_weights_xg +
            (total_shots td / 20) * offensive_weights_total_shots +
            (shots_on_target td / 10) * offensive_weights_shots_on_target +
            xgot td * offensive_weights_xgot +
            xa td * offensive_weights_xa +
            (passes_rate td / 100) * offensive_weights_passes_rate
      in if xgot_conceded td + 0.1 = 0 then Inl ZeroDivisionError
         else
           let defensive_score =
                 (1 / (xgot_conceded td + 0.1)) * defensive_weights_xgot_conceded +
                 (tackles_rate td / 100) * defensive_weights_tackles_rate +
                 (ball_recoveries td / 100) * defensive_weights_ball_recoveries
           in Inr (offensive_score, defensive_score))"

subsection \<open>Win, draw, loss (\_calculate\_win\_probabilities)\<close>

text \<open>
  The body of the two nested loops: one cell of the grid, added to the bucket that the
  comparison of the goals selects. The accumulator is
  \<open>(home_win_prob, draw_prob, away_win_prob)\<close>.
\<close>

definition wdl_cell :: "real \<Rightarrow> real \<Rightarrow> nat \<Rightarrow> nat \<Rightarrow> real \<times> real \<times> real \<Rightarrow> real \<times> real \<times> real" where
  "wdl_cell home_xg away_xg home_goals away_goals acc =
     (case acc of (home_win_prob, draw_prob, away_win_prob) \<Rightarrow>
        let home_goal_prob = poisson_pmf home_goals home_xg;
            away_goal_prob = poisson_pmf away_goals away_xg;
            scoreline_prob = fl_mul home_goal_prob away_goal_prob
        in if home_goals > away_goals then (home_win_prob + scoreline_prob, draw_prob, away_win_prob)
           else if home_goals < away_goals then (home_win_prob, draw_prob, away_win_prob + scoreline_prob)
           else (home_win_prob, draw_prob + scoreline_prob, away_win_prob))"

definition wdl_buckets :: "real \<Rightarrow> real \<Rightarrow> real \<times> real \<times> real" where
  "wdl_buckets home_xg away_xg =
     fold (\<lambda>home_goals. fold (wdl_cell home_xg away_xg home_goals) [0..<8]) [0..<8] (0, 0, 0)"

text \<open>
  The accumulators are numpy doubles, so the three divisions by \<open>total\<close> are numpy
  divisions: when the total is \<open>0.0\<close> each value is \<open>nan\<close>, and stays so through the
  multiplication and the rounding.
\<close>

definition calculate_win_probabilities :: "real \<Rightarrow> real \<Rightarrow> win_probs" where
  "calculate_win_probabilities home_xg away_xg =
     (case wdl_buckets home_xg away_xg of (home_win_prob, draw_prob, away_win_prob) \<Rightarrow>
        let total = home_win_prob + draw_prob + away_win_prob
        in \<lparr>home_win = map_option (\<lambda>q. py_round (q * 100) 1) (np_divide home_win_prob total),
            draw = map_option (\<lambda>q. py_round (q * 100) 1) (np_divide draw_prob total),
            away_win = map_option (\<lambda>q. py_round (q * 100) 1) (np_divide away_win_prob total)\<rparr>)"

subsection \<open>Both teams to score (\_predict\_btts)\<close>

text \<open>The defensive factor, written twice in the source, once per team.\<close>

definition def_factor :: "real \<Rightarrow> real" where
  "def_factor conceded = min 1.15 (1 + (conceded - 1.0) * 0.1)"

definition predict_btts :: "real \<Rightarrow> real \<Rightarrow> team_data \<Rightarrow> team_data \<Rightarrow> btts_result" where
  "predict_btts home_xg away_xg home_data away_data =
     (let home_scoring_prob = 1 - poisson_pmf 0 home_xg;
          away_scoring_prob = 1 - poisson_pmf 0 away_xg;
          home_def_factor = def_factor (xgot_conceded home_data);
          away_def_factor = def_factor (xgot_conceded away_data);
          home_scoring_prob = min 0.99 (home_scoring_prob * away_def_factor);
          away_scoring_prob = min 0.99 (away_scoring_prob * home_def_factor);
          btts_prob = home_scoring_prob * away_scoring_prob;
          btts_percentage = py_round (btts_prob * 100) 1
      in \<lparr>btts_prediction = (if btts_percentage \<ge> 50 then ''Yes'' else ''No''),
          btts_probability = btts_percentage\<rparr>)"

subsection \<open>Over and under (\_predict\_over\_under)\<close>

definition over_under_step :: "real \<Rightarrow> real \<Rightarrow> (string \<rightharpoonup> over_under_entry) \<Rightarrow> (string \<rightharpoonup> over_under_entry)" where
  "over_under_step total_xg threshold results =
     (let lambda_param = total_xg;
          over_prob = 1 - poisson_cdf (threshold - 0.5) lambda_param;
          over_percentage = py_round (over_prob * 100) 1
      in results(str_float1 threshold \<mapsto>
           \<lparr>ou_over = over_percentage,
            ou_under = py_round (100 - over_percentage) 1,
            ou_prediction = (if over_percentage \<ge> 50 then ''Over'' else ''Under'')\<rparr>))"

definition predict_over_under :: "real \<Rightarrow> real \<Rightarrow> (string \<rightharpoonup> over_under_entry)" where
  "predict_over_under home_xg away_xg =
     (let total_xg = home_xg + away_xg
      in fold (over_under_step total_xg) [1.5, 2.5, 3.5] Map.empty)"

subsection \<open>Most likely scorelines (\_predict\_scorelines)\<close>

definition scoreline_cell :: "real \<Rightarrow> real \<Rightarrow> nat \<Rightarrow> nat \<Rightarrow> scoreline_entry" where
  "scoreline_cell home_xg away_xg home_goals away_goals =
     (let home_prob = poisson_pmf home_goals home_xg;
          away_prob = poisson_pmf away_goals away_xg;
          prob = fl_mul home_prob away_prob
      in \<lparr>sl_scoreline = str_nat home_goals @ ''-'' @ str_nat away_goals, sl_probability = prob\<rparr>)"

definition scoreline_probs :: "real \<Rightarrow> real \<Rightarrow> scoreline_entry list" where
  "scoreline_probs home_xg away_xg =
     fold (\<lambda>home_goals.
             fold (\<lambda>away_goals acc. acc @ [scoreline_cell home_xg away_xg home_goals away_goals]) [0..<6])
          [0..<6] []"

text \<open>
  \<open>list.sort(key, reverse=True)\<close> is a stable sort into descending order of the key:
  the stable (insertion) sort of the library on the negated key.
\<close>

definition predict_scorelines :: "real \<Rightarrow> real \<Rightarrow> scoreline_entry list" where
  "predict_scorelines home_xg away_xg =
     (let sorted_probs = sort_key (\<lambda>x. - sl_probability x) (scoreline_probs home_xg away_xg);
          top_3 = take 3 sorted_probs
      in map (\<lambda>scoreline. scoreline\<lparr>sl_probability := py_round (sl_probability scoreline * 100) 1\<rparr>) top_3)"

subsection \<open>The pipeline (predict\_match\_outcome)\<close>

definition home_advantage :: real where
  "home_advantage = 1.15"

definition predict_match_outcome :: "team_data \<Rightarrow> team_data \<Rightarrow> py_error + match_prediction" where
  "predict_match_outcome home_data away_data =
     (case calculate_team_strength home_data of
        Inl e \<Rightarrow> Inl e
      | Inr (home_off, home_def) \<Rightarrow>
          (case calculate_team_strength away_data of
             Inl e \<Rightarrow> Inl e
           | Inr (away_off, away_def) \<Rightarrow>
               if away_def + 0.5 = 0 then Inl ZeroDivisionError
               else
                 let home_expected_goals = xg home_data * home_advantage * (1 / (away_def + 0.5))
                 in if home_def + 0.5 = 0 then Inl ZeroDivisionError
                    else
                      let away_expected_goals = xg away_data * (1 / (home_def + 0.5))
                      in Inr \<lparr>win_probabilities = calculate_win_probabilities home_expected_goals away_expected_goals,
                              btts = predict_btts home_expected_goals away_expected_goals home_data away_data,
                              over_under = predict_over_under home_expected_goals away_expected_goals,
                              scorelines = predict_scorelines home_expected_goals away_expected_goals,
                              expected_goals =
                                \<lparr>eg_home = py_round home_expected_goals 2,
                                 eg_away = py_round away_expected_goals 2,
                                 eg_total = py_round (home_expected_goals + away_expected_goals) 2\<rparr>\<rparr>))"

subsection \<open>The formulas of the specification and the default inputs\<close>

text \<open>
  The defensive score and the two expected-goal scalars as the specification writes
  them, to be compared with what the pipeline computes.
\<close>

definition defensive_score_spec :: "team_data \<Rightarrow> real" where
  "defensive_score_spec t =
     0.40 * (1 / (xgot_conceded t + 0.1)) + 0.30 * (tackles_rate t / 100) + 0.30 * (ball_recoveries t / 100)"

definition home_xg_spec :: "team_data \<Rightarrow> team_data \<Rightarrow> real" where
  "home_xg_spec home_data away_data = xg home_data * 1.15 * (1 / (defensive_score_spec away_data + 0.5))"

definition away_xg_spec :: "team_data \<Rightarrow> team_data \<Rightarrow> real" where
  "away_xg_spec home_data away_data = xg away_data * (1 / (defensive_score_spec home_data + 0.5))"

text \<open>The two records that the form of app.py submits when no field is changed.\<close>

definition default_home :: team_data where
  "default_home = \<lparr>xg = 1.5, total_shots = 12, shots_on_target = 5, xgot = 1.3, xa = 1.0,
     passes_rate = 75.0, tackles_rate = 70.0, ball_recoveries = 50, xgot_conceded = 1.0\<rparr>"

definition default_away :: team_data where
  "default_away = \<lparr>xg = 1.2, total_shots = 10, shots_on_target = 4, xgot = 1.0, xa = 0.8,
     passes_rate = 72.0, tackles_rate = 68.0, ball_recoveries = 45, xgot_conceded = 1.2\<rparr>"

text \<open>
  The sum of the joint Poisson probabilities (the products of the two masses, as doubles)
  over the cells of the 8 x 8 grid that a relation between home goals and away goals
  selects: the three buckets of the specification.
\<close>

definition bucket_sum :: "(nat \<Rightarrow> nat \<Rightarrow> bool) \<Rightarrow> real \<Rightarrow> real \<Rightarrow> real" where
  "bucket_sum R home_xg away_xg =
     (\<Sum>home_goals = 0..<8. \<Sum>away_goals = 0..<8.
        if R home_goals away_goals
        then fl_mul (poisson_pmf home_goals home_xg) (poisson_pmf away_goals away_xg) else 0)"

text \<open>
  The entry that the specification describes for one threshold: the over percentage
  from the Poisson distribution function of the total rate, its complement, the label.
\<close>

definition over_entry :: "real \<Rightarrow> real \<Rightarrow> over_under_entry" where
  "over_entry total_xg threshold =
     (let over_percentage = py_round ((1 - poisson_cdf (threshold - 0.5) total_xg) * 100) 1
      in \<lparr>ou_over = over_percentage,
          ou_under = py_round (100 - over_percentage) 1,
          ou_prediction = (if over_percentage \<ge> 50 then ''Over'' else ''Under'')\<rparr>)"

text \<open>
  The scoreline grid of the specification: the 36 cells in the order of the two loops,
  the joint probability of a cell, the order in which the ranker has to report cells
  (higher probability first, the lexicographically earlier cell first on a tie), and the
  entry reported for a cell.
\<close>

definition grid_cells :: "(nat \<times> nat) list" where
  "grid_cells = List.product [0..<6] [0..<6]"

definition joint_prob :: "real \<Rightarrow> real \<Rightarrow> nat \<times> nat \<Rightarrow> real" where
  "joint_prob home_xg away_xg c = fl_mul (poisson_pmf (fst c) home_xg) (poisson_pmf (snd c) away_xg)"

definition lex_earlier :: "nat \<times> nat \<Rightarrow> nat \<times> nat \<Rightarrow> bool" where
  "lex_earlier c d \<longleftrightarrow> fst c < fst d \<or> (fst c = fst d \<and> snd c < snd d)"

definition ranks_before :: "real \<Rightarrow> real \<Rightarrow> nat \<times> nat \<Rightarrow> nat \<times> nat \<Rightarrow> bool" where
  "ranks_before home_xg away_xg c d \<longleftrightarrow>
     joint_prob home_xg away_xg c > joint_prob home_xg away_xg d \<or>
     (joint_prob home_xg away_xg c = joint_prob home_xg away_xg d \<and> lex_earlier c d)"

definition reported_entry :: "real \<Rightarrow> real \<Rightarrow> nat \<times> nat \<Rightarrow> scoreline_entry" where
  "reported_entry home_xg away_xg c =
     \<lparr>sl_scoreline = str_nat (fst c) @ ''-'' @ str_nat (snd c),
      sl_probability = py_round (joint_prob home_xg away_xg c * 100) 1\<rparr>"

text \<open>The cells in the order in which the stable descending sort leaves them.\<close>

definition ranking :: "real \<Rightarrow> real \<Rightarrow> (nat \<times> nat) list" where
  "ranking home_xg away_xg = sort_key (\<lambda>c. - joint_prob home_xg away_xg c) grid_cells"

section \<open>Properties\<close>

subsection \<open>Rounding\<close>

lemma rhe_floor_le: "\<lfloor>x\<rfloor> \<le> round_half_even x"
  unfolding round_half_even_def Let_def by simp

lemma rhe_le_floor: "round_half_even x \<le> \<lfloor>x\<rfloor> + 1"
  unfolding round_half_even_def Let_def by simp

lemma rhe_lower: "x - 1 / 2 \<le> of_int (round_half_even x)"
  unfolding round_half_even_def Let_def by (auto; linarith)

lemma rhe_upper: "of_int (round_half_even x) \<le> x + 1 / 2"
  unfolding round_half_even_def Let_def by (auto; linarith)

lemma rhe_of_int: "round_half_even (of_int n) = n"
  unfolding round_half_even_def Let_def by simp

lemma rhe_mono:
  assumes "x \<le> y"
  shows "round_half_even x \<le> round_half_even y"
proof (cases "\<lfloor>x\<rfloor> = \<lfloor>y\<rfloor>")
  case True
  then have "x - of_int \<lfloor>x\<rfloor> \<le> y - of_int \<lfloor>y\<rfloor>"
    using assms by simp
  then show ?thesis
    unfolding round_half_even_def Let_def using True by auto
next
  case False
  have "\<lfloor>x\<rfloor> \<le> \<lfloor>y\<rfloor>"
    using assms by (rule floor_mono)
  then have "\<lfloor>x\<rfloor> + 1 \<le> \<lfloor>y\<rfloor>"
    using False by linarith
  then show ?thesis
    using rhe_le_floor [of x] rhe_floor_le [of y] by linarith
qed

lemma py_round_mono: "x \<le> y \<Longrightarrow> py_round x n \<le> py_round y n"
  unfolding py_round_def
  by (intro divide_right_mono) (auto intro!: rhe_mono mult_right_mono)

lemma py_round_fix: "py_round (of_int m / 10 ^ n) n = of_int m / 10 ^ n"
  unfolding py_round_def by (simp add: rhe_of_int)

subsection \<open>Underflow and the Poisson mass\<close>

lemma underflow_bound_pos: "0 < underflow_bound"
  by (simp add: underflow_bound_def)

lemma underflow_nonneg: "0 \<le> x \<Longrightarrow> 0 \<le> underflow x"
  by (simp add: underflow_def)

lemma underflow_le: "0 \<le> x \<Longrightarrow> underflow x \<le> x"
  by (simp add: underflow_def)

lemma underflow_zero: "underflow 0 = 0"
  by (simp add: underflow_def)

lemma underflow_one: "underflow 1 = 1"
proof -
  have "(1::real) < 2 ^ 1075"
    by (rule one_less_power) simp_all
  then show ?thesis
    by (simp add: underflow_def underflow_bound_def field_simps)
qed

lemma underflow_keep: "underflow_bound < x \<Longrightarrow> underflow x = x"
  by (auto simp add: underflow_def)

lemma underflow_small: "0 \<le> x \<Longrightarrow> x \<le> underflow_bound \<Longrightarrow> underflow x = 0"
  by (simp add: underflow_def)


lemma fl_mul_nonneg: "0 \<le> x \<Longrightarrow> 0 \<le> y \<Longrightarrow> 0 \<le> fl_mul x y"
  by (simp add: fl_mul_def underflow_nonneg)

lemma fl_mul_zero: "fl_mul 0 y = 0" "fl_mul x 0 = 0"
  by (simp_all add: fl_mul_def underflow_zero)

lemma fl_mul_one: "fl_mul 1 1 = 1"
  by (simp add: fl_mul_def underflow_one)

lemma poisson_mass_nonneg: "0 \<le> mu \<Longrightarrow> 0 \<le> poisson_mass k mu"
  by (simp add: poisson_mass_def)

lemma poisson_mass_zero_rate: "poisson_mass k 0 = (if k = 0 then 1 else 0)"
  by (simp add: poisson_mass_def)

lemma poisson_pmf_nonneg: "0 \<le> mu \<Longrightarrow> 0 \<le> poisson_pmf k mu"
  by (simp add: poisson_pmf_def underflow_nonneg poisson_mass_nonneg)

lemma poisson_pmf_zero_rate: "poisson_pmf k 0 = (if k = 0 then 1 else 0)"
  by (simp add: poisson_pmf_def poisson_mass_zero_rate underflow_one underflow_zero)

lemma poisson_pmf_0_le_1: "0 \<le> mu \<Longrightarrow> poisson_pmf 0 mu \<le> 1"
proof -
  assume "0 \<le> mu"
  then have "poisson_mass 0 mu \<le> 1" "0 \<le> poisson_mass 0 mu"
    by (simp_all add: poisson_mass_def)
  then show ?thesis
    unfolding poisson_pmf_def using underflow_le [of "poisson_mass 0 mu"] by linarith
qed

lemma exp_ge_two_power: "2 ^ n \<le> exp (real n)"
proof -
  have "(2::real) \<le> exp 1"
    using exp_ge_add_one_self [of "1::real"] by simp
  then have "(2::real) ^ n \<le> exp 1 ^ n"
    by (intro power_mono) simp_all
  also have "\<dots> = exp (real n)"
    by (simp add: exp_of_nat_mult [symmetric])
  finally show ?thesis .
qed

lemma exp_le_three_power: "exp (real n) \<le> 3 ^ n"
proof -
  have "exp (real n) = exp 1 ^ n"
    by (simp add: exp_of_nat_mult [symmetric])
  also have "\<dots> \<le> 3 ^ n"
    by (intro power_mono exp_le) simp
  finally show ?thesis .
qed

lemma poisson_pmf_underflows:
  assumes "1173 \<le> mu" and "mu \<le> 16384" and "k < 8"
  shows "poisson_pmf k mu = 0"
proof -
  have mu1: "1 \<le> mu" "0 \<le> mu"
    using assms(1) by simp_all
  have "mu ^ k \<le> mu ^ 7"
    using assms(3) mu1 by (intro power_increasing) simp_all
  also have "\<dots> \<le> 16384 ^ 7"
    using assms(2) mu1 by (intro power_mono) simp_all
  also have "(16384::real) ^ 7 = 2 ^ 98"
    by simp
  finally have pw: "mu ^ k \<le> 2 ^ 98" .
  have "(2::real) ^ 1173 \<le> exp (real 1173)"
    by (rule exp_ge_two_power)
  also have "\<dots> \<le> exp mu"
    using assms(1) by simp
  finally have ex: "(2::real) ^ 1173 \<le> exp mu" .
  have "poisson_mass k mu = mu ^ k / (exp mu * fact k)"
    by (simp add: poisson_mass_def exp_minus field_simps)
  also have "\<dots> \<le> 2 ^ 98 / (2 ^ 1173 * 1)"
  proof (rule frac_le)
    show "(2::real) ^ 1173 * 1 \<le> exp mu * fact k"
      using ex by (intro mult_mono) (simp_all add: fact_ge_1)
  qed (use pw mu1 in simp_all)
  also have "\<dots> = underflow_bound"
    unfolding underflow_bound_def
    by (simp add: power_diff [symmetric] field_simps flip: power_add)
  finally have "poisson_mass k mu \<le> underflow_bound" .
  then show ?thesis
    unfolding poisson_pmf_def using poisson_mass_nonneg [OF mu1(2), of k]
    by (intro underflow_small)
qed

lemma three_power_bound: "(3::real) ^ 600 < 2 ^ 1075"
  by simp

lemma exp_neg_above_bound:
  assumes "0 \<le> x" and "x \<le> 600"
  shows "underflow_bound < exp (- x)"
proof -
  have "exp x \<le> exp (real 600)"
    using assms(2) by simp
  also have "\<dots> \<le> 3 ^ 600"
    by (rule exp_le_three_power)
  also have "\<dots> < 2 ^ 1075"
    by (rule three_power_bound)
  finally have "exp x < 2 ^ 1075" .
  then have "1 / 2 ^ 1075 < 1 / exp x"
    by (intro divide_strict_left_mono) simp_all
  then show ?thesis
    by (simp add: underflow_bound_def exp_minus inverse_eq_divide)
qed

lemma origin_cell_pos:
  assumes "0 \<le> hx" "hx \<le> 300" "0 \<le> ax" "ax \<le> 300"
  shows "0 < fl_mul (poisson_pmf 0 hx) (poisson_pmf 0 ax)"
proof -
  have h: "poisson_pmf 0 hx = exp (- hx)"
    unfolding poisson_pmf_def poisson_mass_def
    using exp_neg_above_bound [of hx] assms by (simp add: underflow_keep)
  have a: "poisson_pmf 0 ax = exp (- ax)"
    unfolding poisson_pmf_def poisson_mass_def
    using exp_neg_above_bound [of ax] assms by (simp add: underflow_keep)
  have "underflow_bound < exp (- (hx + ax))"
    using assms by (intro exp_neg_above_bound) simp_all
  then have "fl_mul (exp (- hx)) (exp (- ax)) = exp (- (hx + ax))"
    unfolding fl_mul_def by (simp add: underflow_keep exp_add [symmetric])
  then show ?thesis
    unfolding h a by simp
qed

subsection \<open>Team strength and expected goals\<close>

lemmas weights_defs =
  offensive_weights_xg_def offensive_weights_total_shots_def offensive_weights_shots_on_target_def
  offensive_weights_xgot_def offensive_weights_xa_def offensive_weights_passes_rate_def
  defensive_weights_xgot_conceded_def defensive_weights_tackles_rate_def
  defensive_weights_ball_recoveries_def

lemma valid_defaults: "valid_team default_home" "valid_team default_away"
  by (simp_all add: valid_team_def default_home_def default_away_def)

lemma strength_valid:
  assumes "valid_team t"
  shows "\<exists>off. calculate_team_strength t = Inr (off, defensive_score_spec t)"
proof -
  have "xgot_conceded t + 0.1 \<noteq> 0"
    using assms by (simp add: valid_team_def add_nonneg_eq_0_iff)
  then show ?thesis
    by (simp add: calculate_team_strength_def defensive_score_spec_def weights_defs Let_def
        mult.commute)
qed

lemma defensive_score_pos:
  assumes "valid_team t"
  shows "0 < defensive_score_spec t"
proof -
  have "0 < 0.40 * (1 / (xgot_conceded t + 0.1))"
    using assms by (simp add: valid_team_def add_nonneg_pos)
  moreover have "0 \<le> 0.30 * (tackles_rate t / 100)" "0 \<le> 0.30 * (ball_recoveries t / 100)"
    using assms by (simp_all add: valid_team_def)
  ultimately show ?thesis
    unfolding defensive_score_spec_def by linarith
qed

lemma strength_cases:
  "calculate_team_strength t =
     (if xgot_conceded t + 0.1 = 0 then Inl ZeroDivisionError
      else Inr (xg t * 0.30 + (total_shots t / 20) * 0.08 + (shots_on_target t / 10) * 0.12 +
                xgot t * 0.22 + xa t * 0.13 + (passes_rate t / 100) * 0.15,
                defensive_score_spec t))"
  by (simp add: calculate_team_strength_def defensive_score_spec_def weights_defs Let_def
      mult.commute)

lemma predict_cases:
  "predict_match_outcome home_data away_data =
     (if xgot_conceded home_data + 0.1 = 0 \<or> xgot_conceded away_data + 0.1 = 0 \<or>
         defensive_score_spec away_data + 0.5 = 0 \<or> defensive_score_spec home_data + 0.5 = 0
      then Inl ZeroDivisionError
      else Inr \<lparr>win_probabilities =
                  calculate_win_probabilities (home_xg_spec home_data away_data)
                    (away_xg_spec home_data away_data),
                btts =
                  predict_btts (home_xg_spec home_data away_data) (away_xg_spec home_data away_data)
                    home_data away_data,
                over_under =
                  predict_over_under (home_xg_spec home_data away_data)
                    (away_xg_spec home_data away_data),
                scorelines =
                  predict_scorelines (home_xg_spec home_data away_data)
                    (away_xg_spec home_data away_data),
                expected_goals =
                  \<lparr>eg_home = py_round (home_xg_spec home_data away_data) 2,
                   eg_away = py_round (away_xg_spec home_data away_data) 2,
                   eg_total =
                     py_round (home_xg_spec home_data away_data + away_xg_spec home_data away_data) 2\<rparr>\<rparr>)"
  unfolding predict_match_outcome_def strength_cases
  by (simp add: home_advantage_def Let_def home_xg_spec_def away_xg_spec_def)

lemma predict_valid:
  assumes "valid_team home_data" "valid_team away_data"
  shows "predict_match_outcome home_data away_data =
     (let home_expected_goals = home_xg_spec home_data away_data;
          away_expected_goals = away_xg_spec home_data away_data
      in Inr \<lparr>win_probabilities = calculate_win_probabilities home_expected_goals away_expected_goals,
              btts = predict_btts home_expected_goals away_expected_goals home_data away_data,
              over_under = predict_over_under home_expected_goals away_expected_goals,
              scorelines = predict_scorelines home_expected_goals away_expected_goals,
              expected_goals =
                \<lparr>eg_home = py_round home_expected_goals 2,
                 eg_away = py_round away_expected_goals 2,
                 eg_total = py_round (home_expected_goals + away_expected_goals) 2\<rparr>\<rparr>)"
proof -
  obtain ho where h: "calculate_team_strength home_data = Inr (ho, defensive_score_spec home_data)"
    using strength_valid [OF assms(1)] by blast
  obtain ao where a: "calculate_team_strength away_data = Inr (ao, defensive_score_spec away_data)"
    using strength_valid [OF assms(2)] by blast
  have "defensive_score_spec home_data + 0.5 \<noteq> 0" "defensive_score_spec away_data + 0.5 \<noteq> 0"
    using defensive_score_pos [OF assms(1)] defensive_score_pos [OF assms(2)] by simp_all
  then show ?thesis
    by (simp add: predict_match_outcome_def h a home_advantage_def Let_def home_xg_spec_def
        away_xg_spec_def)
qed

lemma xg_spec_nonneg:
  assumes "valid_team home_data" "valid_team away_data"
  shows "0 \<le> home_xg_spec home_data away_data" "0 \<le> away_xg_spec home_data away_data"
proof -
  have "0 \<le> xg home_data" "0 \<le> xg away_data"
    using assms by (simp_all add: valid_team_def)
  moreover have "0 < defensive_score_spec home_data + 0.5" "0 < defensive_score_spec away_data + 0.5"
    using defensive_score_pos [OF assms(1)] defensive_score_pos [OF assms(2)] by simp_all
  ultimately show "0 \<le> home_xg_spec home_data away_data" "0 \<le> away_xg_spec home_data away_data"
    by (simp_all add: home_xg_spec_def away_xg_spec_def)
qed

lemma predict_valid_fields:
  assumes "valid_team home_data" "valid_team away_data"
  shows "\<exists>p. predict_match_outcome home_data away_data = Inr p \<and>
           win_probabilities p =
             calculate_win_probabilities (home_xg_spec home_data away_data) (away_xg_spec home_data away_data) \<and>
           btts p =
             predict_btts (home_xg_spec home_data away_data) (away_xg_spec home_data away_data)
               home_data away_data \<and>
           over_under p =
             predict_over_under (home_xg_spec home_data away_data) (away_xg_spec home_data away_data) \<and>
           scorelines p =
             predict_scorelines (home_xg_spec home_data away_data) (away_xg_spec home_data away_data)"
  using predict_valid [OF assms] by (simp add: Let_def)

lemma offence_irrelevant:
  "predict_match_outcome
      (home_data\<lparr>total_shots := sa, shots_on_target := sb, xgot := sc, xa := sd, passes_rate := se\<rparr>)
      (away_data\<lparr>total_shots := ta, shots_on_target := tb, xgot := tc, xa := td, passes_rate := te\<rparr>) =
   predict_match_outcome home_data away_data"
  by (simp add: predict_match_outcome_def calculate_team_strength_def Let_def predict_btts_def
        split: sum.splits)

lemma default_xg_values:
  "py_round (home_xg_spec default_home default_away) 2 = 1.5"
  "py_round (away_xg_spec default_home default_away) 2 = 0.98"
  "py_round (home_xg_spec default_home default_away + away_xg_spec default_home default_away) 2 = 2.49"
  by (simp_all add: home_xg_spec_def away_xg_spec_def defensive_score_spec_def default_away_def
      default_home_def py_round_def round_half_even_def)

text \<open>
  C1. For every pair of input records: whenever \<open>calculate_team_strength\<close> returns, the
  defensive score is
  \<open>0.40 * (1 / (xgot_conceded + 0.1)) + 0.30 * (tackles_rate / 100) + 0.30 * (ball_recoveries / 100)\<close>;
  whenever the engine returns, every output is computed from the two scalars
  \<open>home.xg * 1.15 * (1 / (away defensive score + 0.5))\<close> and
  \<open>away.xg * (1 / (home defensive score + 0.5))\<close>, the factor \<open>1.15\<close> being on the home
  side only; and the engine returns (no division by zero) for every pair of records with
  non-negative fields. The offensive scores have no influence: changing the five fields
  that enter only the offensive score changes nothing in the result.
\<close>

theorem expected_goals_formula:
  "(\<forall>off_score def_score.
      calculate_team_strength home_data = Inr (off_score, def_score) \<longrightarrow>
      def_score = 0.40 * (1 / (xgot_conceded home_data + 0.1)) +
                  0.30 * (tackles_rate home_data / 100) +
                  0.30 * (ball_recoveries home_data / 100)) \<and>
   (\<forall>p. predict_match_outcome home_data away_data = Inr p \<longrightarrow>
      (\<exists>home_xg away_xg.
         home_xg = xg home_data * 1.15 * (1 / (defensive_score_spec away_data + 0.5)) \<and>
         away_xg = xg away_data * (1 / (defensive_score_spec home_data + 0.5)) \<and>
         p = \<lparr>win_probabilities = calculate_win_probabilities home_xg away_xg,
              btts = predict_btts home_xg away_xg home_data away_data,
              over_under = predict_over_under home_xg away_xg,
              scorelines = predict_scorelines home_xg away_xg,
              expected_goals =
                \<lparr>eg_home = py_round home_xg 2,
                 eg_away = py_round away_xg 2,
                 eg_total = py_round (home_xg + away_xg) 2\<rparr>\<rparr>)) \<and>
   (valid_team home_data \<and> valid_team away_data \<longrightarrow>
      (\<exists>p. predict_match_outcome home_data away_data = Inr p)) \<and>
   predict_match_outcome
     (home_data\<lparr>total_shots := sa, shots_on_target := sb, xgot := sc, xa := sd, passes_rate := se\<rparr>)
     (away_data\<lparr>total_shots := ta, shots_on_target := tb, xgot := tc, xa := td, passes_rate := te\<rparr>) =
   predict_match_outcome home_data away_data"
proof (intro conjI allI impI)
  fix off_score def_score
  assume "calculate_team_strength home_data = Inr (off_score, def_score)"
  then have "def_score = defensive_score_spec home_data"
    unfolding strength_cases by (simp split: if_splits)
  then show "def_score = 0.40 * (1 / (xgot_conceded home_data + 0.1)) +
                  0.30 * (tackles_rate home_data / 100) +
                  0.30 * (ball_recoveries home_data / 100)"
    unfolding defensive_score_spec_def .
next
  fix p
  assume "predict_match_outcome home_data away_data = Inr p"
  then have "p = \<lparr>win_probabilities =
                  calculate_win_probabilities (home_xg_spec home_data away_data)
                    (away_xg_spec home_data away_data),
                btts =
                  predict_btts (home_xg_spec home_data away_data) (away_xg_spec home_data away_data)
                    home_data away_data,
                over_under =
                  predict_over_under (home_xg_spec home_data away_data)
                    (away_xg_spec home_data away_data),
                scorelines =
                  predict_scorelines (home_xg_spec home_data away_data)
                    (away_xg_spec home_data away_data),
                expected_goals =
                  \<lparr>eg_home = py_round (home_xg_spec home_data away_data) 2,
                   eg_away = py_round (away_xg_spec home_data away_data) 2,
                   eg_total =
                     py_round (home_xg_spec home_data away_data + away_xg_spec home_data away_data) 2\<rparr>\<rparr>"
    unfolding predict_cases by (simp split: if_splits)
  then show "\<exists>home_xg away_xg.
         home_xg = xg home_data * 1.15 * (1 / (defensive_score_spec away_data + 0.5)) \<and>
         away_xg = xg away_data * (1 / (defensive_score_spec home_data + 0.5)) \<and>
         p = \<lparr>win_probabilities = calculate_win_probabilities home_xg away_xg,
              btts = predict_btts home_xg away_xg home_data away_data,
              over_under = predict_over_under home_xg away_xg,
              scorelines = predict_scorelines home_xg away_xg,
              expected_goals =
                \<lparr>eg_home = py_round home_xg 2,
                 eg_away = py_round away_xg 2,
                 eg_total = py_round (home_xg + away_xg) 2\<rparr>\<rparr>"
    unfolding home_xg_spec_def away_xg_spec_def by blast
next
  assume "valid_team home_data \<and> valid_team away_data"
  then show "\<exists>p. predict_match_outcome home_data away_data = Inr p"
    using predict_valid [of home_data away_data] by (simp add: Let_def)
next
  show "predict_match_outcome
     (home_data\<lparr>total_shots := sa, shots_on_target := sb, xgot := sc, xa := sd, passes_rate := se\<rparr>)
     (away_data\<lparr>total_shots := ta, shots_on_target := tb, xgot := tc, xa := td, passes_rate := te\<rparr>) =
   predict_match_outcome home_data away_data"
    by (rule offence_irrelevant)
qed

theorem expected_goals_formula_witness:
  "valid_team default_home \<and> valid_team default_away \<and>
   (\<exists>p. predict_match_outcome default_home default_away = Inr p \<and>
        eg_home (expected_goals p) = 1.5 \<and> eg_away (expected_goals p) = 0.98) \<and>
   predict_match_outcome
     (default_home\<lparr>total_shots := 0, shots_on_target := 0, xgot := 0, xa := 0, passes_rate := 0\<rparr>)
     (default_away\<lparr>total_shots := 50, shots_on_target := 30, xgot := 10, xa := 5, passes_rate := 100\<rparr>) =
   predict_match_outcome default_home default_away"
proof -
  note t = expected_goals_formula [of default_home default_away, where sa = 0 and sb = 0 and sc = 0
      and sd = 0 and se = 0 and ta = 50 and tb = 30 and tc = 10 and td = 5 and te = 100]
  from t valid_defaults obtain p where p: "predict_match_outcome default_home default_away = Inr p"
    by blast
  with t have "eg_home (expected_goals p) = py_round (home_xg_spec default_home default_away) 2 \<and>
      eg_away (expected_goals p) = py_round (away_xg_spec default_home default_away) 2"
    unfolding home_xg_spec_def away_xg_spec_def by auto
  then have "eg_home (expected_goals p) = 1.5 \<and> eg_away (expected_goals p) = 0.98"
    by (simp add: default_xg_values)
  with p t valid_defaults show ?thesis
    by blast
qed

subsection \<open>The defensive factor of the BTTS estimator\<close>

lemma btts_tight_defences:
  assumes "0 \<le> home_xg" and "0 \<le> away_xg"
    and "xgot_conceded home_data = 0" and "xgot_conceded away_data = 0"
  shows "btts_probability (predict_btts home_xg away_xg home_data away_data) =
         py_round ((1 - poisson_pmf 0 home_xg) * 0.9 * ((1 - poisson_pmf 0 away_xg) * 0.9) * 100) 1"
proof -
  have f: "def_factor 0 = 0.9"
    by (simp add: def_factor_def)
  have c: "(1 - p) * 0.9 \<le> (0.99::real)" if "0 \<le> p" for p
    using that by simp
  have "(1 - poisson_pmf 0 home_xg) * 0.9 \<le> 0.99" "(1 - poisson_pmf 0 away_xg) * 0.9 \<le> 0.99"
    by (rule c, rule poisson_pmf_nonneg, rule assms)+
  then have "min 0.99 ((1 - poisson_pmf 0 home_xg) * 0.9) = (1 - poisson_pmf 0 home_xg) * 0.9"
    "min 0.99 ((1 - poisson_pmf 0 away_xg) * 0.9) = (1 - poisson_pmf 0 away_xg) * 0.9"
    by (simp_all add: min_def)
  then show ?thesis
    unfolding predict_btts_def Let_def assms(3,4) f btts_result.simps by simp
qed

text \<open>
  C9. The factor \<open>min(1.15, 1 + (xgot_conceded - 1.0) * 0.1)\<close> has no lower clamp: up to
  \<open>xgot_conceded = 2.5\<close> it is the unclamped expression. For a non-negative
  \<open>xgot_conceded\<close> it lies in \<open>[0.9, 1.15]\<close>, the lower end reached at \<open>0\<close>, and for
  \<open>xgot_conceded < 1\<close> it is below \<open>1\<close>: it then reduces the scoring probability it
  multiplies, by up to 10 percent. When both teams have \<open>xgot_conceded = 0\<close>, the
  estimator multiplies both base scoring probabilities by \<open>0.9\<close>.
\<close>

theorem def_factor_bounds:
  "(0 \<le> c \<longrightarrow> 0.9 \<le> def_factor c \<and> def_factor c \<le> 1.15) \<and>
   (c < 1 \<longrightarrow> def_factor c < 1) \<and>
   (c \<le> 2.5 \<longrightarrow> def_factor c = 1 + (c - 1) * 0.1) \<and>
   def_factor 0 = 0.9 \<and>
   (0 \<le> home_xg \<and> 0 \<le> away_xg \<and> xgot_conceded home_data = 0 \<and> xgot_conceded away_data = 0 \<longrightarrow>
      btts_probability (predict_btts home_xg away_xg home_data away_data) =
      py_round ((1 - poisson_pmf 0 home_xg) * 0.9 * ((1 - poisson_pmf 0 away_xg) * 0.9) * 100) 1)"
proof -
  have "(0 \<le> c \<longrightarrow> 0.9 \<le> def_factor c \<and> def_factor c \<le> 1.15) \<and>
   (c < 1 \<longrightarrow> def_factor c < 1) \<and>
   (c \<le> 2.5 \<longrightarrow> def_factor c = 1 + (c - 1) * 0.1) \<and>
   def_factor 0 = 0.9"
    by (auto simp add: def_factor_def min_def field_simps)
  then show ?thesis
    using btts_tight_defences [of home_xg away_xg home_data away_data] by blast
qed

theorem def_factor_bounds_witness:
  "(0::real) \<le> 0.5 \<and> (0.5::real) < 1 \<and> (0.5::real) \<le> 2.5 \<and>
   0.9 \<le> def_factor 0.5 \<and> def_factor 0.5 \<le> 1.15 \<and> def_factor 0.5 < 1 \<and>
   def_factor 0.5 = 1 + (0.5 - 1) * 0.1 \<and>
   (0::real) \<le> 1.5 \<and> (0::real) \<le> 1.2 \<and>
   xgot_conceded (default_home\<lparr>xgot_conceded := 0\<rparr>) = 0 \<and>
   xgot_conceded (default_away\<lparr>xgot_conceded := 0\<rparr>) = 0 \<and>
   btts_probability
     (predict_btts 1.5 1.2 (default_home\<lparr>xgot_conceded := 0\<rparr>) (default_away\<lparr>xgot_conceded := 0\<rparr>)) =
   py_round ((1 - poisson_pmf 0 1.5) * 0.9 * ((1 - poisson_pmf 0 1.2) * 0.9) * 100) 1"
proof -
  note t = def_factor_bounds [of "0.5" "1.5" "1.2" "default_home\<lparr>xgot_conceded := 0\<rparr>"
      "default_away\<lparr>xgot_conceded := 0\<rparr>"]
  have h: "(0::real) \<le> 0.5" "(0.5::real) < 1" "(0.5::real) \<le> 2.5" "(0::real) \<le> 1.5" "(0::real) \<le> 1.2"
    "xgot_conceded (default_home\<lparr>xgot_conceded := 0\<rparr>) = 0"
    "xgot_conceded (default_away\<lparr>xgot_conceded := 0\<rparr>) = 0"
    by simp_all
  from t h show ?thesis
    by blast
qed

subsection \<open>The total of the expected goals\<close>

text \<open>
  C10. \<open>expected_goals.total\<close> is the 2-decimal rounding of the sum of the unrounded
  home and away scalars, not the sum of the two rounded fields: for every valid input the
  three fields are the roundings of the home scalar, the away scalar and their sum, and
  on the default input of the form the total is \<open>2.49\<close> while the two rounded fields are
  \<open>1.5\<close> and \<open>0.98\<close>, which add up to \<open>2.48\<close>.
\<close>

theorem expected_goals_total:
  "(\<forall>home_data away_data. valid_team home_data \<and> valid_team away_data \<longrightarrow>
      (\<exists>p. predict_match_outcome home_data away_data = Inr p \<and>
           eg_home (expected_goals p) = py_round (home_xg_spec home_data away_data) 2 \<and>
           eg_away (expected_goals p) = py_round (away_xg_spec home_data away_data) 2 \<and>
           eg_total (expected_goals p) =
             py_round (home_xg_spec home_data away_data + away_xg_spec home_data away_data) 2)) \<and>
   (\<exists>p. predict_match_outcome default_home default_away = Inr p \<and>
        eg_total (expected_goals p) \<noteq> eg_home (expected_goals p) + eg_away (expected_goals p))"
proof (intro conjI allI impI)
  fix home_data away_data
  assume "valid_team home_data \<and> valid_team away_data"
  then show "\<exists>p. predict_match_outcome home_data away_data = Inr p \<and>
           eg_home (expected_goals p) = py_round (home_xg_spec home_data away_data) 2 \<and>
           eg_away (expected_goals p) = py_round (away_xg_spec home_data away_data) 2 \<and>
           eg_total (expected_goals p) =
             py_round (home_xg_spec home_data away_data + away_xg_spec home_data away_data) 2"
    using predict_valid [of home_data away_data] by (simp add: Let_def)
next
  show "\<exists>p. predict_match_outcome default_home default_away = Inr p \<and>
        eg_total (expected_goals p) \<noteq> eg_home (expected_goals p) + eg_away (expected_goals p)"
    using predict_valid [OF valid_defaults] by (simp add: Let_def default_xg_values)
qed

theorem expected_goals_total_witness:
  "valid_team default_home \<and> valid_team default_away \<and>
   (\<exists>p. predict_match_outcome default_home default_away = Inr p \<and>
        eg_total (expected_goals p) = 2.49 \<and>
        eg_home (expected_goals p) + eg_away (expected_goals p) = 2.48)"
proof -
  have "\<exists>p. predict_match_outcome default_home default_away = Inr p \<and>
           eg_home (expected_goals p) = py_round (home_xg_spec default_home default_away) 2 \<and>
           eg_away (expected_goals p) = py_round (away_xg_spec default_home default_away) 2 \<and>
           eg_total (expected_goals p) =
             py_round (home_xg_spec default_home default_away + away_xg_spec default_home default_away) 2"
    using expected_goals_total valid_defaults by blast
  then show ?thesis
    using valid_defaults by (auto simp add: default_xg_values)
qed

subsection \<open>The Poisson mass function and the win, draw, loss buckets\<close>

lemma wdl_inner:
  "fold (wdl_cell hx ax i) js (h, d, a) =
     (h + (\<Sum>j\<leftarrow>js. if j < i then fl_mul (poisson_pmf i hx) (poisson_pmf j ax) else 0),
      d + (\<Sum>j\<leftarrow>js. if i = j then fl_mul (poisson_pmf i hx) (poisson_pmf j ax) else 0),
      a + (\<Sum>j\<leftarrow>js. if i < j then fl_mul (poisson_pmf i hx) (poisson_pmf j ax) else 0))"
  by (induction js arbitrary: h d a) (auto simp add: wdl_cell_def Let_def)

lemma wdl_outer:
  "fold (\<lambda>i. fold (wdl_cell hx ax i) js) is (h, d, a) =
     (h + (\<Sum>i\<leftarrow>is. \<Sum>j\<leftarrow>js. if j < i then fl_mul (poisson_pmf i hx) (poisson_pmf j ax) else 0),
      d + (\<Sum>i\<leftarrow>is. \<Sum>j\<leftarrow>js. if i = j then fl_mul (poisson_pmf i hx) (poisson_pmf j ax) else 0),
      a + (\<Sum>i\<leftarrow>is. \<Sum>j\<leftarrow>js. if i < j then fl_mul (poisson_pmf i hx) (poisson_pmf j ax) else 0))"
  by (induction "is" arbitrary: h d a) (auto simp add: wdl_inner)

lemma wdl_buckets_sums:
  "wdl_buckets hx ax =
     (bucket_sum (\<lambda>i j. j < i) hx ax, bucket_sum (\<lambda>i j. i = j) hx ax, bucket_sum (\<lambda>i j. i < j) hx ax)"
  unfolding wdl_buckets_def wdl_outer bucket_sum_def
  by (simp add: interv_sum_list_conv_sum_set_nat del: upt_Suc)

lemma bucket_nonneg:
  assumes "0 \<le> hx" "0 \<le> ax"
  shows "0 \<le> bucket_sum R hx ax"
  unfolding bucket_sum_def
  by (intro sum_nonneg) (simp add: poisson_pmf_nonneg fl_mul_nonneg assms)


lemma bucket_zero: "bucket_sum R 0 0 = (if R 0 0 then 1 else 0)"
proof -
  have inner: "(\<Sum>j = 0..<8. if R i j then fl_mul (poisson_pmf i 0) (poisson_pmf j 0) else 0) =
               (if i = 0 then (if R 0 0 then 1 else 0) else 0)" for i
  proof -
    have "(\<Sum>j = 0..<8. if R i j then fl_mul (poisson_pmf i 0) (poisson_pmf j 0) else 0) =
          (\<Sum>j = 0..<(8::nat). if j = 0 then (if R i 0 then poisson_pmf i 0 else 0) else 0)"
      by (intro sum.cong refl) (simp add: poisson_pmf_zero_rate fl_mul_zero fl_mul_one)
    also have "\<dots> = (if R i 0 then poisson_pmf i 0 else 0)"
      by (simp add: sum.delta')
    finally show ?thesis
      by (simp add: poisson_pmf_zero_rate)
  qed
  show ?thesis
    unfolding bucket_sum_def inner by (simp add: sum.delta')
qed

text \<open>At large home rates every cell of the grid underflows.\<close>

lemma bucket_underflows:
  assumes "1173 \<le> hx" and "hx \<le> 16384"
  shows "bucket_sum R hx ax = 0"
  unfolding bucket_sum_def
  by (intro sum.neutral ballI) (simp add: poisson_pmf_underflows [OF assms] fl_mul_zero)

text \<open>At rates up to 300 the cell \<open>(0, 0)\<close> does not underflow.\<close>

lemma draw_bucket_pos:
  assumes "0 \<le> hx" "hx \<le> 300" "0 \<le> ax" "ax \<le> 300"
  shows "0 < bucket_sum (\<lambda>i j. i = j) hx ax"
proof -
  have inner_nonneg: "0 \<le> (\<Sum>j = 0..<8. if i = j then fl_mul (poisson_pmf i hx) (poisson_pmf j ax) else 0)"
    for i :: nat
    by (intro sum_nonneg) (simp add: poisson_pmf_nonneg fl_mul_nonneg assms)
  have "0 < (\<Sum>j = 0..<(8::nat). if (0::nat) = j then fl_mul (poisson_pmf 0 hx) (poisson_pmf j ax) else 0)"
  proof (rule sum_pos2 [where i = 0])
    show "0 < (if (0::nat) = 0 then fl_mul (poisson_pmf 0 hx) (poisson_pmf 0 ax) else 0)"
      using origin_cell_pos [OF assms] by simp
  qed (simp_all add: poisson_pmf_nonneg fl_mul_nonneg assms)
  then show ?thesis
    unfolding bucket_sum_def
    by (intro sum_pos2 [where i = 0]) (simp_all add: poisson_pmf_nonneg fl_mul_nonneg assms)
qed

lemma py_round_percent_range:
  assumes "0 \<le> x" "x \<le> 100"
  shows "0 \<le> py_round x 1 \<and> py_round x 1 \<le> 100"
proof -
  have "py_round (of_int 0 / 10 ^ 1) 1 \<le> py_round x 1"
    by (rule py_round_mono) (use assms in simp)
  moreover have "py_round x 1 \<le> py_round (of_int 1000 / 10 ^ 1) 1"
    by (rule py_round_mono) (use assms in simp)
  ultimately show ?thesis
    unfolding py_round_fix by simp
qed

lemma py_round_three:
  assumes "a + b + c = 100"
  shows "\<bar>py_round a 1 + py_round b 1 + py_round c 1 - 100\<bar> \<le> 0.1"
proof -
  define A where "A = round_half_even (a * 10 ^ 1)"
  define B where "B = round_half_even (b * 10 ^ 1)"
  define C where "C = round_half_even (c * 10 ^ 1)"
  have "a * 10 - 1 / 2 \<le> of_int A" "b * 10 - 1 / 2 \<le> of_int B" "c * 10 - 1 / 2 \<le> of_int C"
    using rhe_lower [of "a * 10"] rhe_lower [of "b * 10"] rhe_lower [of "c * 10"]
    by (simp_all add: A_def B_def C_def)
  then have "(1000::real) - 3 / 2 \<le> of_int (A + B + C)"
    using assms by simp
  then have lo: "999 \<le> A + B + C"
    by linarith
  have "of_int A \<le> a * 10 + 1 / 2" "of_int B \<le> b * 10 + 1 / 2" "of_int C \<le> c * 10 + 1 / 2"
    using rhe_upper [of "a * 10"] rhe_upper [of "b * 10"] rhe_upper [of "c * 10"]
    by (simp_all add: A_def B_def C_def)
  then have "of_int (A + B + C) \<le> (1000::real) + 3 / 2"
    using assms by simp
  then have hi: "A + B + C \<le> 1001"
    by linarith
  define N :: real where "N = of_int (A + B + C)"
  have eq: "py_round a 1 + py_round b 1 + py_round c 1 = N / 10"
    by (simp add: py_round_def A_def B_def C_def N_def add_divide_distrib)
  have "999 \<le> N" "N \<le> 1001"
    unfolding N_def using lo hi by linarith+
  then have "N / 10 - 100 \<le> 0.1" "- (N / 10 - 100) \<le> 0.1"
    by simp_all
  then show ?thesis
    unfolding eq abs_le_iff by simp
qed

lemma win_probabilities_sums:
  "calculate_win_probabilities hx ax =
     \<lparr>home_win = map_option (\<lambda>q. py_round (q * 100) 1)
         (np_divide (bucket_sum (\<lambda>h a. a < h) hx ax)
            (bucket_sum (\<lambda>h a. a < h) hx ax + bucket_sum (\<lambda>h a. h = a) hx ax +
             bucket_sum (\<lambda>h a. h < a) hx ax)),
      draw = map_option (\<lambda>q. py_round (q * 100) 1)
         (np_divide (bucket_sum (\<lambda>h a. h = a) hx ax)
            (bucket_sum (\<lambda>h a. a < h) hx ax + bucket_sum (\<lambda>h a. h = a) hx ax +
             bucket_sum (\<lambda>h a. h < a) hx ax)),
      away_win = map_option (\<lambda>q. py_round (q * 100) 1)
         (np_divide (bucket_sum (\<lambda>h a. h < a) hx ax)
            (bucket_sum (\<lambda>h a. a < h) hx ax + bucket_sum (\<lambda>h a. h = a) hx ax +
             bucket_sum (\<lambda>h a. h < a) hx ax))\<rparr>"
  by (simp add: calculate_win_probabilities_def wdl_buckets_sums Let_def)

lemma win_probabilities_nan:
  assumes "bucket_sum (\<lambda>h a. a < h) hx ax + bucket_sum (\<lambda>h a. h = a) hx ax +
           bucket_sum (\<lambda>h a. h < a) hx ax = 0"
  shows "calculate_win_probabilities hx ax = \<lparr>home_win = None, draw = None, away_win = None\<rparr>"
  unfolding win_probabilities_sums assms by (simp add: np_divide_def)

lemma win_probabilities_finite:
  assumes "0 \<le> hx" and "0 \<le> ax"
    and "bucket_sum (\<lambda>h a. a < h) hx ax + bucket_sum (\<lambda>h a. h = a) hx ax +
         bucket_sum (\<lambda>h a. h < a) hx ax \<noteq> 0"
  shows "\<exists>h d a.
           calculate_win_probabilities hx ax = \<lparr>home_win = Some h, draw = Some d, away_win = Some a\<rparr> \<and>
           h = py_round ((bucket_sum (\<lambda>h a. a < h) hx ax /
                 (bucket_sum (\<lambda>h a. a < h) hx ax + bucket_sum (\<lambda>h a. h = a) hx ax +
                  bucket_sum (\<lambda>h a. h < a) hx ax)) * 100) 1 \<and>
           d = py_round ((bucket_sum (\<lambda>h a. h = a) hx ax /
                 (bucket_sum (\<lambda>h a. a < h) hx ax + bucket_sum (\<lambda>h a. h = a) hx ax +
                  bucket_sum (\<lambda>h a. h < a) hx ax)) * 100) 1 \<and>
           a = py_round ((bucket_sum (\<lambda>h a. h < a) hx ax /
                 (bucket_sum (\<lambda>h a. a < h) hx ax + bucket_sum (\<lambda>h a. h = a) hx ax +
                  bucket_sum (\<lambda>h a. h < a) hx ax)) * 100) 1 \<and>
           0 \<le> h \<and> h \<le> 100 \<and> 0 \<le> d \<and> d \<le> 100 \<and> 0 \<le> a \<and> a \<le> 100 \<and>
           \<bar>h + d + a - 100\<bar> \<le> 0.1"
proof -
  define hw where "hw = bucket_sum (\<lambda>h a. a < h) hx ax"
  define dr where "dr = bucket_sum (\<lambda>h a. h = a) hx ax"
  define aw where "aw = bucket_sum (\<lambda>h a. h < a) hx ax"
  define total where "total = hw + dr + aw"
  have nn: "0 \<le> hw" "0 \<le> dr" "0 \<le> aw"
    unfolding hw_def dr_def aw_def by (rule bucket_nonneg [OF assms(1,2)])+
  have ne: "total \<noteq> 0"
    unfolding total_def hw_def dr_def aw_def by (rule assms(3))
  then have pos: "0 < total"
    using nn by (simp add: total_def)
  have r: "calculate_win_probabilities hx ax =
             \<lparr>home_win = Some (py_round ((hw / total) * 100) 1),
              draw = Some (py_round ((dr / total) * 100) 1),
              away_win = Some (py_round ((aw / total) * 100) 1)\<rparr>"
    using ne unfolding win_probabilities_sums total_def hw_def dr_def aw_def
    by (simp add: np_divide_def)
  have le: "hw \<le> total" "dr \<le> total" "aw \<le> total"
    using nn by (simp_all add: total_def)
  have rng: "0 \<le> (x / total) * 100 \<and> (x / total) * 100 \<le> 100" if "0 \<le> x" "x \<le> total" for x
    using that pos by (simp add: field_simps)
  have "(hw / total) * 100 + (dr / total) * 100 + (aw / total) * 100 = ((hw + dr + aw) / total) * 100"
    by (simp add: add_divide_distrib distrib_right)
  also have "\<dots> = 100"
    using pos by (simp add: total_def)
  finally have sum: "\<bar>py_round ((hw / total) * 100) 1 + py_round ((dr / total) * 100) 1 +
                  py_round ((aw / total) * 100) 1 - 100\<bar> \<le> 0.1"
    by (rule py_round_three)
  have b1: "0 \<le> py_round ((hw / total) * 100) 1 \<and> py_round ((hw / total) * 100) 1 \<le> 100"
    using rng [OF nn(1) le(1)] by (intro py_round_percent_range) simp_all
  have b2: "0 \<le> py_round ((dr / total) * 100) 1 \<and> py_round ((dr / total) * 100) 1 \<le> 100"
    using rng [OF nn(2) le(2)] by (intro py_round_percent_range) simp_all
  have b3: "0 \<le> py_round ((aw / total) * 100) 1 \<and> py_round ((aw / total) * 100) 1 \<le> 100"
    using rng [OF nn(3) le(3)] by (intro py_round_percent_range) simp_all
  show ?thesis
    using r b1 b2 b3 sum
    unfolding total_def hw_def dr_def aw_def
    by (intro exI conjI) (assumption | rule refl | elim conjE)+
qed

lemma win_probabilities_moderate:
  assumes "0 \<le> hx" "hx \<le> 300" "0 \<le> ax" "ax \<le> 300"
  shows "\<exists>h d a.
           calculate_win_probabilities hx ax = \<lparr>home_win = Some h, draw = Some d, away_win = Some a\<rparr> \<and>
           0 \<le> h \<and> h \<le> 100 \<and> 0 \<le> d \<and> d \<le> 100 \<and> 0 \<le> a \<and> a \<le> 100 \<and>
           \<bar>h + d + a - 100\<bar> \<le> 0.1"
proof -
  have "0 < bucket_sum (\<lambda>h a. a < h) hx ax + bucket_sum (\<lambda>h a. h = a) hx ax +
            bucket_sum (\<lambda>h a. h < a) hx ax"
    using draw_bucket_pos [OF assms] bucket_nonneg [OF assms(1,3), of "\<lambda>h a. a < h"]
      bucket_nonneg [OF assms(1,3), of "\<lambda>h a. h < a"]
    by linarith
  then have "bucket_sum (\<lambda>h a. a < h) hx ax + bucket_sum (\<lambda>h a. h = a) hx ax +
            bucket_sum (\<lambda>h a. h < a) hx ax \<noteq> 0"
    by simp
  from win_probabilities_finite [OF assms(1,3) this]
  obtain h d a where
    "calculate_win_probabilities hx ax = \<lparr>home_win = Some h, draw = Some d, away_win = Some a\<rparr>"
    "0 \<le> h" "h \<le> 100" "0 \<le> d" "d \<le> 100" "0 \<le> a" "a \<le> 100" "\<bar>h + d + a - 100\<bar> \<le> 0.1"
    by (elim exE conjE) (rule that; assumption)
  then show ?thesis
    by (intro exI [of _ h] exI [of _ d] exI [of _ a] conjI)
qed

lemma form_rates:
  assumes "valid_team home_data" "valid_team away_data" "xg home_data \<le> 10" "xg away_data \<le> 10"
  shows "home_xg_spec home_data away_data \<le> 300" "away_xg_spec home_data away_data \<le> 300"
proof -
  have x: "0 \<le> xg home_data" "0 \<le> xg away_data"
    using assms(1,2) by (simp_all add: valid_team_def)
  have q: "0 \<le> 1 / (s + 0.5) \<and> 1 / (s + 0.5) \<le> 2" if "0 < s" for s :: real
    using that by (simp add: field_simps)
  have "xg home_data * 1.15 \<le> 10 * 1.15"
    using assms(3) by simp
  then have "xg home_data * 1.15 * (1 / (defensive_score_spec away_data + 0.5)) \<le> 10 * 1.15 * 2"
    using q [OF defensive_score_pos [OF assms(2)]] by (intro mult_mono) simp_all
  then show "home_xg_spec home_data away_data \<le> 300"
    unfolding home_xg_spec_def by simp
  have "xg away_data * (1 / (defensive_score_spec home_data + 0.5)) \<le> 10 * 2"
    using x assms(4) q [OF defensive_score_pos [OF assms(1)]] by (intro mult_mono) simp_all
  then show "away_xg_spec home_data away_data \<le> 300"
    unfolding away_xg_spec_def by simp
qed

lemma pipeline_win_probabilities:
  assumes "valid_team home_data \<and> valid_team away_data \<and> xg home_data \<le> 10 \<and> xg away_data \<le> 10"
  shows "\<exists>p h d a. predict_match_outcome home_data away_data = Inr p \<and>
           win_probabilities p = \<lparr>home_win = Some h, draw = Some d, away_win = Some a\<rparr> \<and>
           0 \<le> h \<and> h \<le> 100 \<and> 0 \<le> d \<and> d \<le> 100 \<and> 0 \<le> a \<and> a \<le> 100 \<and>
           \<bar>h + d + a - 100\<bar> \<le> 0.1"
proof -
  have v: "valid_team home_data" "valid_team away_data" "xg home_data \<le> 10" "xg away_data \<le> 10"
    using assms by simp_all
  obtain p where p: "predict_match_outcome home_data away_data = Inr p"
    and w: "win_probabilities p =
       calculate_win_probabilities (home_xg_spec home_data away_data) (away_xg_spec home_data away_data)"
    using predict_valid_fields [OF v(1,2)] by blast
  from win_probabilities_moderate [OF xg_spec_nonneg(1) [OF v(1,2)] form_rates(1) [OF v]
      xg_spec_nonneg(2) [OF v(1,2)] form_rates(2) [OF v]]
  obtain h d a where
    "win_probabilities p = \<lparr>home_win = Some h, draw = Some d, away_win = Some a\<rparr>"
    "0 \<le> h" "h \<le> 100" "0 \<le> d" "d \<le> 100" "0 \<le> a" "a \<le> 100" "\<bar>h + d + a - 100\<bar> \<le> 0.1"
    unfolding w [symmetric] by (elim exE conjE) (rule that; assumption)
  with p show ?thesis
    by (intro exI [of _ p] exI [of _ h] exI [of _ d] exI [of _ a] conjI)
qed

text \<open>
  C2, as stated, fails: not for every pair of non-negative expected-goal values are the
  three values numbers in \<open>[0, 100]\<close>. At the rates \<open>(2000, 1)\<close> every home mass for 0
  to 7 goals underflows to \<open>0.0\<close>, the total of the grid is \<open>0.0\<close> and the three values
  are \<open>nan\<close>. The engine itself returns them for the default records with the home
  \<open>xg\<close> set to 2000.
\<close>

theorem win_probabilities_counterexample:
  "calculate_win_probabilities 2000 1 = \<lparr>home_win = None, draw = None, away_win = None\<rparr> \<and>
   map_sum id win_probabilities (predict_match_outcome (default_home\<lparr>xg := 2000\<rparr>) default_away) =
     Inr \<lparr>home_win = None, draw = None, away_win = None\<rparr>"
proof
  have z: "bucket_sum R hx ax = 0" if "1173 \<le> hx" "hx \<le> 16384" for R hx ax
    using that by (rule bucket_underflows)
  show "calculate_win_probabilities 2000 1 = \<lparr>home_win = None, draw = None, away_win = None\<rparr>"
    by (rule win_probabilities_nan) (simp add: z)
  have v: "valid_team (default_home\<lparr>xg := 2000\<rparr>)" "valid_team default_away"
    by (simp_all add: valid_team_def default_home_def default_away_def)
  have r: "1173 \<le> home_xg_spec (default_home\<lparr>xg := 2000\<rparr>) default_away"
    "home_xg_spec (default_home\<lparr>xg := 2000\<rparr>) default_away \<le> 16384"
    by (simp_all add: home_xg_spec_def defensive_score_spec_def default_home_def default_away_def)
  have "calculate_win_probabilities (home_xg_spec (default_home\<lparr>xg := 2000\<rparr>) default_away)
          (away_xg_spec (default_home\<lparr>xg := 2000\<rparr>) default_away) =
        \<lparr>home_win = None, draw = None, away_win = None\<rparr>"
    by (rule win_probabilities_nan) (simp add: z [OF r])
  then show "map_sum id win_probabilities
       (predict_match_outcome (default_home\<lparr>xg := 2000\<rparr>) default_away) =
     Inr \<lparr>home_win = None, draw = None, away_win = None\<rparr>"
    using predict_valid [OF v] by (simp add: Let_def)
qed

text \<open>
  C2, amended. For non-negative expected goals, the three accumulators of the nested
  loops are the sums of the joint Poisson probabilities over the cells of the 8 x 8 grid
  (goals 0 to 7 each) with more home goals, equal goals and more away goals, and each
  returned value is its bucket divided by the total, times 100, rounded to 1 decimal.
  When the total is \<open>0.0\<close> (every cell has underflowed) the three values are \<open>nan\<close>.
  When it is not, the three values are numbers, each in \<open>[0, 100]\<close>, and their sum is
  within \<open>0.1\<close> of \<open>100\<close>. The total is not \<open>0.0\<close> whenever both expected-goal values
  are at most 300, so the three values are such numbers then; this covers the win
  probabilities that the engine returns for every pair of records with non-negative
  fields whose \<open>xg\<close> is within the range of the form (at most 10).
\<close>

theorem win_probabilities_props:
  assumes "0 \<le> home_xg" and "0 \<le> away_xg"
  shows "(\<exists>hw dr aw total.
           hw = bucket_sum (\<lambda>home_goals away_goals. home_goals > away_goals) home_xg away_xg \<and>
           dr = bucket_sum (\<lambda>home_goals away_goals. home_goals = away_goals) home_xg away_xg \<and>
           aw = bucket_sum (\<lambda>home_goals away_goals. home_goals < away_goals) home_xg away_xg \<and>
           total = hw + dr + aw \<and>
           calculate_win_probabilities home_xg away_xg =
             \<lparr>home_win = map_option (\<lambda>q. py_round (q * 100) 1) (np_divide hw total),
              draw = map_option (\<lambda>q. py_round (q * 100) 1) (np_divide dr total),
              away_win = map_option (\<lambda>q. py_round (q * 100) 1) (np_divide aw total)\<rparr> \<and>
           (total = 0 \<longrightarrow>
              calculate_win_probabilities home_xg away_xg =
                \<lparr>home_win = None, draw = None, away_win = None\<rparr>) \<and>
           (total \<noteq> 0 \<longrightarrow>
              (\<exists>h d a.
                 calculate_win_probabilities home_xg away_xg =
                   \<lparr>home_win = Some h, draw = Some d, away_win = Some a\<rparr> \<and>
                 h = py_round ((hw / total) * 100) 1 \<and>
                 d = py_round ((dr / total) * 100) 1 \<and>
                 a = py_round ((aw / total) * 100) 1 \<and>
                 0 \<le> h \<and> h \<le> 100 \<and> 0 \<le> d \<and> d \<le> 100 \<and> 0 \<le> a \<and> a \<le> 100 \<and>
                 \<bar>h + d + a - 100\<bar> \<le> 0.1))) \<and>
         (home_xg \<le> 300 \<and> away_xg \<le> 300 \<longrightarrow>
            (\<exists>h d a.
               calculate_win_probabilities home_xg away_xg =
                 \<lparr>home_win = Some h, draw = Some d, away_win = Some a\<rparr> \<and>
               0 \<le> h \<and> h \<le> 100 \<and> 0 \<le> d \<and> d \<le> 100 \<and> 0 \<le> a \<and> a \<le> 100 \<and>
               \<bar>h + d + a - 100\<bar> \<le> 0.1)) \<and>
         (valid_team home_data \<and> valid_team away_data \<and> xg home_data \<le> 10 \<and> xg away_data \<le> 10 \<longrightarrow>
            (\<exists>p h d a. predict_match_outcome home_data away_data = Inr p \<and>
               win_probabilities p = \<lparr>home_win = Some h, draw = Some d, away_win = Some a\<rparr> \<and>
               0 \<le> h \<and> h \<le> 100 \<and> 0 \<le> d \<and> d \<le> 100 \<and> 0 \<le> a \<and> a \<le> 100 \<and>
               \<bar>h + d + a - 100\<bar> \<le> 0.1))"
proof (intro conjI)
  let ?hw = "bucket_sum (\<lambda>home_goals away_goals. home_goals > away_goals) home_xg away_xg"
  let ?dr = "bucket_sum (\<lambda>home_goals away_goals. home_goals = away_goals) home_xg away_xg"
  let ?aw = "bucket_sum (\<lambda>home_goals away_goals. home_goals < away_goals) home_xg away_xg"
  have A: "calculate_win_probabilities home_xg away_xg =
             \<lparr>home_win = map_option (\<lambda>q. py_round (q * 100) 1) (np_divide ?hw (?hw + ?dr + ?aw)),
              draw = map_option (\<lambda>q. py_round (q * 100) 1) (np_divide ?dr (?hw + ?dr + ?aw)),
              away_win = map_option (\<lambda>q. py_round (q * 100) 1) (np_divide ?aw (?hw + ?dr + ?aw))\<rparr>"
    by (rule win_probabilities_sums)
  have B: "?hw + ?dr + ?aw = 0 \<longrightarrow>
              calculate_win_probabilities home_xg away_xg =
                \<lparr>home_win = None, draw = None, away_win = None\<rparr>"
    by (rule impI) (rule win_probabilities_nan)
  have C: "?hw + ?dr + ?aw \<noteq> 0 \<longrightarrow>
              (\<exists>h d a.
                 calculate_win_probabilities home_xg away_xg =
                   \<lparr>home_win = Some h, draw = Some d, away_win = Some a\<rparr> \<and>
                 h = py_round ((?hw / (?hw + ?dr + ?aw)) * 100) 1 \<and>
                 d = py_round ((?dr / (?hw + ?dr + ?aw)) * 100) 1 \<and>
                 a = py_round ((?aw / (?hw + ?dr + ?aw)) * 100) 1 \<and>
                 0 \<le> h \<and> h \<le> 100 \<and> 0 \<le> d \<and> d \<le> 100 \<and> 0 \<le> a \<and> a \<le> 100 \<and>
                 \<bar>h + d + a - 100\<bar> \<le> 0.1)"
    by (rule impI) (rule win_probabilities_finite [OF assms])
  show "\<exists>hw dr aw total.
           hw = bucket_sum (\<lambda>home_goals away_goals. home_goals > away_goals) home_xg away_xg \<and>
           dr = bucket_sum (\<lambda>home_goals away_goals. home_goals = away_goals) home_xg away_xg \<and>
           aw = bucket_sum (\<lambda>home_goals away_goals. home_goals < away_goals) home_xg away_xg \<and>
           total = hw + dr + aw \<and>
           calculate_win_probabilities home_xg away_xg =
             \<lparr>home_win = map_option (\<lambda>q. py_round (q * 100) 1) (np_divide hw total),
              draw = map_option (\<lambda>q. py_round (q * 100) 1) (np_divide dr total),
              away_win = map_option (\<lambda>q. py_round (q * 100) 1) (np_divide aw total)\<rparr> \<and>
           (total = 0 \<longrightarrow>
              calculate_win_probabilities home_xg away_xg =
                \<lparr>home_win = None, draw = None, away_win = None\<rparr>) \<and>
           (total \<noteq> 0 \<longrightarrow>
              (\<exists>h d a.
                 calculate_win_probabilities home_xg away_xg =
                   \<lparr>home_win = Some h, draw = Some d, away_win = Some a\<rparr> \<and>
                 h = py_round ((hw / total) * 100) 1 \<and>
                 d = py_round ((dr / total) * 100) 1 \<and>
                 a = py_round ((aw / total) * 100) 1 \<and>
                 0 \<le> h \<and> h \<le> 100 \<and> 0 \<le> d \<and> d \<le> 100 \<and> 0 \<le> a \<and> a \<le> 100 \<and>
                 \<bar>h + d + a - 100\<bar> \<le> 0.1))"
    by (rule exI [of _ ?hw], rule exI [of _ ?dr], rule exI [of _ ?aw],
        rule exI [of _ "?hw + ?dr + ?aw"], intro conjI refl A B C)
next
  show "home_xg \<le> 300 \<and> away_xg \<le> 300 \<longrightarrow>
            (\<exists>h d a.
               calculate_win_probabilities home_xg away_xg =
                 \<lparr>home_win = Some h, draw = Some d, away_win = Some a\<rparr> \<and>
               0 \<le> h \<and> h \<le> 100 \<and> 0 \<le> d \<and> d \<le> 100 \<and> 0 \<le> a \<and> a \<le> 100 \<and>
               \<bar>h + d + a - 100\<bar> \<le> 0.1)"
    using win_probabilities_moderate [OF assms(1) _ assms(2)] by (intro impI) (elim conjE)
next
  show "valid_team home_data \<and> valid_team away_data \<and> xg home_data \<le> 10 \<and> xg away_data \<le> 10 \<longrightarrow>
            (\<exists>p h d a. predict_match_outcome home_data away_data = Inr p \<and>
               win_probabilities p = \<lparr>home_win = Some h, draw = Some d, away_win = Some a\<rparr> \<and>
               0 \<le> h \<and> h \<le> 100 \<and> 0 \<le> d \<and> d \<le> 100 \<and> 0 \<le> a \<and> a \<le> 100 \<and>
               \<bar>h + d + a - 100\<bar> \<le> 0.1)"
    by (intro impI) (rule pipeline_win_probabilities)
qed

theorem win_probabilities_props_witness:
  "(0::real) \<le> 1.5 \<and> (0::real) \<le> 1.2 \<and> (1.5::real) \<le> 300 \<and> (1.2::real) \<le> 300 \<and>
   (\<exists>h d a.
      calculate_win_probabilities 1.5 1.2 = \<lparr>home_win = Some h, draw = Some d, away_win = Some a\<rparr> \<and>
      0 \<le> h \<and> h \<le> 100 \<and> 0 \<le> d \<and> d \<le> 100 \<and> 0 \<le> a \<and> a \<le> 100 \<and>
      \<bar>h + d + a - 100\<bar> \<le> 0.1) \<and>
   valid_team default_home \<and> valid_team default_away \<and>
   xg default_home \<le> 10 \<and> xg default_away \<le> 10 \<and>
   (\<exists>p h d a. predict_match_outcome default_home default_away = Inr p \<and>
      win_probabilities p = \<lparr>home_win = Some h, draw = Some d, away_win = Some a\<rparr> \<and>
      0 \<le> h \<and> h \<le> 100 \<and> 0 \<le> d \<and> d \<le> 100 \<and> 0 \<le> a \<and> a \<le> 100 \<and>
      \<bar>h + d + a - 100\<bar> \<le> 0.1)"
proof -
  have h: "(0::real) \<le> 1.5" "(0::real) \<le> 1.2"
    by simp_all
  have b: "(1.5::real) \<le> 300 \<and> (1.2::real) \<le> 300"
    by simp
  have x: "xg default_home \<le> 10" "xg default_away \<le> 10"
    by (simp_all add: default_home_def default_away_def)
  have v: "valid_team default_home \<and> valid_team default_away \<and>
           xg default_home \<le> 10 \<and> xg default_away \<le> 10"
    using valid_defaults x by (intro conjI)
  note t = win_probabilities_props [OF h, of default_home default_away]
  note t2 = mp [OF conjunct1 [OF conjunct2 [OF t]] b]
  note t3 = mp [OF conjunct2 [OF conjunct2 [OF t]] v]
  from h b t2 valid_defaults x t3 show ?thesis
    by (intro conjI) (assumption | elim conjE)+
qed


lemma win_probabilities_zero:
  "calculate_win_probabilities 0 0 = \<lparr>home_win = Some 0, draw = Some 100, away_win = Some 0\<rparr>"
  by (simp add: win_probabilities_sums bucket_zero np_divide_def py_round_def round_half_even_def)

lemma btts_zero:
  "predict_btts 0 0 home_data away_data = \<lparr>btts_prediction = ''No'', btts_probability = 0\<rparr>"
  by (simp add: predict_btts_def poisson_pmf_zero_rate py_round_def round_half_even_def)



text \<open>
  C8. If both expected-goal values are 0, all the Poisson mass is in the cell \<open>(0, 0)\<close>:
  the win probabilities are exactly home 0, draw 100, away 0, and the BTTS probability is
  exactly 0 with the label \<open>No\<close>, whatever the two records are. The engine reports this for
  every pair of valid records whose \<open>xg\<close> fields are both 0.
\<close>

theorem zero_expected_goals:
  "calculate_win_probabilities 0 0 = \<lparr>home_win = Some 0, draw = Some 100, away_win = Some 0\<rparr> \<and>
   predict_btts 0 0 home_data away_data = \<lparr>btts_prediction = ''No'', btts_probability = 0\<rparr> \<and>
   (valid_team home_data \<and> valid_team away_data \<and> xg home_data = 0 \<and> xg away_data = 0 \<longrightarrow>
      (\<exists>p. predict_match_outcome home_data away_data = Inr p \<and>
           win_probabilities p = \<lparr>home_win = Some 0, draw = Some 100, away_win = Some 0\<rparr> \<and>
           btts p = \<lparr>btts_prediction = ''No'', btts_probability = 0\<rparr>))"
proof (intro conjI impI)
  assume v: "valid_team home_data \<and> valid_team away_data \<and> xg home_data = 0 \<and> xg away_data = 0"
  then have "home_xg_spec home_data away_data = 0" "away_xg_spec home_data away_data = 0"
    by (simp_all add: home_xg_spec_def away_xg_spec_def)
  then show "\<exists>p. predict_match_outcome home_data away_data = Inr p \<and>
           win_probabilities p = \<lparr>home_win = Some 0, draw = Some 100, away_win = Some 0\<rparr> \<and>
           btts p = \<lparr>btts_prediction = ''No'', btts_probability = 0\<rparr>"
    using predict_valid [of home_data away_data] v
    by (simp add: Let_def win_probabilities_zero btts_zero)
qed (rule win_probabilities_zero btts_zero)+

theorem zero_expected_goals_witness:
  "valid_team (default_home\<lparr>xg := 0\<rparr>) \<and> valid_team (default_away\<lparr>xg := 0\<rparr>) \<and>
   xg (default_home\<lparr>xg := 0\<rparr>) = 0 \<and> xg (default_away\<lparr>xg := 0\<rparr>) = 0 \<and>
   (\<exists>p. predict_match_outcome (default_home\<lparr>xg := 0\<rparr>) (default_away\<lparr>xg := 0\<rparr>) = Inr p \<and>
        win_probabilities p = \<lparr>home_win = Some 0, draw = Some 100, away_win = Some 0\<rparr> \<and>
        btts p = \<lparr>btts_prediction = ''No'', btts_probability = 0\<rparr>)"
proof -
  have v: "valid_team (default_home\<lparr>xg := 0\<rparr>)" "valid_team (default_away\<lparr>xg := 0\<rparr>)"
    by (simp_all add: valid_team_def default_home_def default_away_def)
  then show ?thesis
    using zero_expected_goals [of "default_home\<lparr>xg := 0\<rparr>" "default_away\<lparr>xg := 0\<rparr>"]
    by simp
qed

subsection \<open>Both teams to score\<close>

lemma scoring_prob_range:
  assumes "0 \<le> mu"
  shows "0 \<le> 1 - poisson_pmf 0 mu"
  using poisson_pmf_0_le_1 [OF assms] by simp

lemma def_factor_pos: "0 \<le> c \<Longrightarrow> 0 < def_factor c"
  by (auto simp add: def_factor_def min_def field_simps)

lemma adjusted_range:
  assumes "0 \<le> mu" "0 \<le> c"
  shows "0 \<le> min 0.99 ((1 - poisson_pmf 0 mu) * def_factor c)"
    and "min 0.99 ((1 - poisson_pmf 0 mu) * def_factor c) \<le> 0.99"
  using scoring_prob_range [OF assms(1)] def_factor_pos [OF assms(2)]
  by (simp_all add: min_def)

lemma btts_estimator:
  assumes "0 \<le> home_xg" and "0 \<le> away_xg"
    and "0 \<le> xgot_conceded home_data" and "0 \<le> xgot_conceded away_data"
  shows "\<exists>home_scoring_prob away_scoring_prob.
           home_scoring_prob =
             min 0.99 ((1 - poisson_pmf 0 home_xg) * min 1.15 (1 + (xgot_conceded away_data - 1.0) * 0.1)) \<and>
           away_scoring_prob =
             min 0.99 ((1 - poisson_pmf 0 away_xg) * min 1.15 (1 + (xgot_conceded home_data - 1.0) * 0.1)) \<and>
           btts_probability (predict_btts home_xg away_xg home_data away_data) =
             py_round (home_scoring_prob * away_scoring_prob * 100) 1 \<and>
           0 \<le> btts_probability (predict_btts home_xg away_xg home_data away_data) \<and>
           btts_probability (predict_btts home_xg away_xg home_data away_data) \<le> 98.01 \<and>
           (btts_prediction (predict_btts home_xg away_xg home_data away_data) = ''Yes'' \<longleftrightarrow>
              50 \<le> btts_probability (predict_btts home_xg away_xg home_data away_data)) \<and>
           (btts_prediction (predict_btts home_xg away_xg home_data away_data) = ''No'' \<longleftrightarrow>
              btts_probability (predict_btts home_xg away_xg home_data away_data) < 50)"
proof -
  define hp where "hp = min 0.99 ((1 - poisson_pmf 0 home_xg) * def_factor (xgot_conceded away_data))"
  define ap where "ap = min 0.99 ((1 - poisson_pmf 0 away_xg) * def_factor (xgot_conceded home_data))"
  have hp: "0 \<le> hp" "hp \<le> 0.99"
    unfolding hp_def by (rule adjusted_range [OF assms(1) assms(4)])+
  have ap: "0 \<le> ap" "ap \<le> 0.99"
    unfolding ap_def by (rule adjusted_range [OF assms(2) assms(3)])+
  have "hp * ap \<le> 0.99 * 0.99"
    using hp ap by (intro mult_mono) simp_all
  then have up: "hp * ap * 100 \<le> 98.01"
    by simp
  have lo: "0 \<le> hp * ap * 100"
    using hp ap by simp
  have "py_round (of_int 0 / 10 ^ 1) 1 \<le> py_round (hp * ap * 100) 1"
    by (rule py_round_mono) (use lo in simp)
  then have rlo: "0 \<le> py_round (hp * ap * 100) 1"
    unfolding py_round_fix by simp
  have "py_round (hp * ap * 100) 1 \<le> py_round 98.01 1"
    by (rule py_round_mono) (rule up)
  also have "py_round 98.01 1 = 98"
    by (simp add: py_round_def round_half_even_def)
  finally have rup: "py_round (hp * ap * 100) 1 \<le> 98.01"
    by simp
  have r: "predict_btts home_xg away_xg home_data away_data =
     \<lparr>btts_prediction = (if py_round (hp * ap * 100) 1 \<ge> 50 then ''Yes'' else ''No''),
      btts_probability = py_round (hp * ap * 100) 1\<rparr>"
    by (simp add: predict_btts_def Let_def hp_def ap_def)
  show ?thesis
    unfolding r using rlo rup
    by (intro exI [of _ hp] exI [of _ ap]) (simp add: hp_def ap_def def_factor_def)
qed

lemma pipeline_btts:
  assumes v: "valid_team home_team \<and> valid_team away_team"
  shows "\<exists>p. predict_match_outcome home_team away_team = Inr p \<and>
                 0 \<le> btts_probability (btts p) \<and> btts_probability (btts p) \<le> 98.01 \<and>
                 (btts_prediction (btts p) = ''Yes'' \<longleftrightarrow> 50 \<le> btts_probability (btts p)) \<and>
                 (btts_prediction (btts p) = ''No'' \<longleftrightarrow> btts_probability (btts p) < 50)"
proof -
  from v obtain p where p: "predict_match_outcome home_team away_team = Inr p"
    and b: "btts p =
       predict_btts (home_xg_spec home_team away_team) (away_xg_spec home_team away_team)
         home_team away_team"
    using predict_valid_fields [of home_team away_team] by blast
  have "0 \<le> home_xg_spec home_team away_team" "0 \<le> away_xg_spec home_team away_team"
    "0 \<le> xgot_conceded home_team" "0 \<le> xgot_conceded away_team"
    using v xg_spec_nonneg [of home_team away_team] by (simp_all add: valid_team_def)
  from btts_estimator [OF this]
  have "0 \<le> btts_probability (btts p) \<and> btts_probability (btts p) \<le> 98.01 \<and>
        (btts_prediction (btts p) = ''Yes'' \<longleftrightarrow> 50 \<le> btts_probability (btts p)) \<and>
        (btts_prediction (btts p) = ''No'' \<longleftrightarrow> btts_probability (btts p) < 50)"
    unfolding b [symmetric] by (elim exE conjE) (intro conjI; assumption)
  with p show ?thesis
    by (intro exI [of _ p] conjI) simp_all
qed

text \<open>
  C5. For non-negative expected goals and non-negative \<open>xgot_conceded\<close> of both teams,
  each team's base scoring probability \<open>1 - pmf(0, xg)\<close> is multiplied by the factor
  \<open>min(1.15, 1 + (xgot_conceded - 1.0) * 0.1)\<close> of the opponent and clamped to at most
  \<open>0.99\<close>; the reported probability is the product as a percentage rounded to 1 decimal;
  it lies in \<open>[0, 98.01]\<close>, and the label is \<open>Yes\<close> exactly when it is at least 50,
  \<open>No\<close> otherwise. So it is for the BTTS entry that the engine returns for every
  pair of records with non-negative fields.
\<close>

theorem btts_props:
  assumes "0 \<le> home_xg" and "0 \<le> away_xg"
    and "0 \<le> xgot_conceded home_data" and "0 \<le> xgot_conceded away_data"
  shows "(\<exists>home_scoring_prob away_scoring_prob.
           home_scoring_prob =
             min 0.99 ((1 - poisson_pmf 0 home_xg) * min 1.15 (1 + (xgot_conceded away_data - 1.0) * 0.1)) \<and>
           away_scoring_prob =
             min 0.99 ((1 - poisson_pmf 0 away_xg) * min 1.15 (1 + (xgot_conceded home_data - 1.0) * 0.1)) \<and>
           btts_probability (predict_btts home_xg away_xg home_data away_data) =
             py_round (home_scoring_prob * away_scoring_prob * 100) 1 \<and>
           0 \<le> btts_probability (predict_btts home_xg away_xg home_data away_data) \<and>
           btts_probability (predict_btts home_xg away_xg home_data away_data) \<le> 98.01 \<and>
           (btts_prediction (predict_btts home_xg away_xg home_data away_data) = ''Yes'' \<longleftrightarrow>
              50 \<le> btts_probability (predict_btts home_xg away_xg home_data away_data)) \<and>
           (btts_prediction (predict_btts home_xg away_xg home_data away_data) = ''No'' \<longleftrightarrow>
              btts_probability (predict_btts home_xg away_xg home_data away_data) < 50)) \<and>
         (valid_team home_team \<and> valid_team away_team \<longrightarrow>
            (\<exists>p. predict_match_outcome home_team away_team = Inr p \<and>
                 0 \<le> btts_probability (btts p) \<and> btts_probability (btts p) \<le> 98.01 \<and>
                 (btts_prediction (btts p) = ''Yes'' \<longleftrightarrow> 50 \<le> btts_probability (btts p)) \<and>
                 (btts_prediction (btts p) = ''No'' \<longleftrightarrow> btts_probability (btts p) < 50)))"
  by (rule conjI, rule btts_estimator [OF assms], rule impI, rule pipeline_btts, assumption)

theorem btts_props_witness:
  "(0::real) \<le> 1.5 \<and> (0::real) \<le> 1.2 \<and>
   0 \<le> xgot_conceded default_home \<and> 0 \<le> xgot_conceded default_away \<and>
   0 \<le> btts_probability (predict_btts 1.5 1.2 default_home default_away) \<and>
   btts_probability (predict_btts 1.5 1.2 default_home default_away) \<le> 98.01 \<and>
   valid_team default_home \<and> valid_team default_away \<and>
   (\<exists>p. predict_match_outcome default_home default_away = Inr p \<and>
        0 \<le> btts_probability (btts p) \<and> btts_probability (btts p) \<le> 98.01)"
proof -
  have h: "(0::real) \<le> 1.5" "(0::real) \<le> 1.2"
    "0 \<le> xgot_conceded default_home" "0 \<le> xgot_conceded default_away"
    by (simp_all add: default_home_def default_away_def)
  note t = btts_props [OF h, of default_home default_away]
  from conjunct1 [OF t]
  have a: "0 \<le> btts_probability (predict_btts 1.5 1.2 default_home default_away) \<and>
    btts_probability (predict_btts 1.5 1.2 default_home default_away) \<le> 98.01"
    by (elim exE conjE) (intro conjI; assumption)
  have v: "valid_team default_home \<and> valid_team default_away"
    using valid_defaults by (intro conjI)
  from mp [OF conjunct2 [OF t] v]
  obtain p where "predict_match_outcome default_home default_away = Inr p"
    "0 \<le> btts_probability (btts p)" "btts_probability (btts p) \<le> 98.01"
    by (elim exE conjE) (rule that; assumption)
  then have b: "\<exists>p. predict_match_outcome default_home default_away = Inr p \<and>
        0 \<le> btts_probability (btts p) \<and> btts_probability (btts p) \<le> 98.01"
    by (intro exI [of _ p] conjI)
  from h a valid_defaults b show ?thesis
    by (intro conjI) (elim conjE, assumption)+
qed

subsection \<open>Over and under\<close>

lemma threshold_keys:
  "str_float1 1.5 = ''1.5''" "str_float1 2.5 = ''2.5''" "str_float1 3.5 = ''3.5''"
  by (simp_all add: str_float1_def digit_char_def char_of_def bit_0)

lemma poisson_cdf_thresholds:
  "poisson_cdf (1.5 - 0.5) mu = poisson_mass 0 mu + poisson_mass 1 mu"
  "poisson_cdf (2.5 - 0.5) mu = poisson_mass 0 mu + poisson_mass 1 mu + poisson_mass 2 mu"
  "poisson_cdf (3.5 - 0.5) mu = poisson_mass 0 mu + poisson_mass 1 mu + poisson_mass 2 mu + poisson_mass 3 mu"
  by (simp_all add: poisson_cdf_def eval_nat_numeral)

lemma py_round_complement:
  "py_round (100 - py_round x 1) 1 = 100 - py_round x 1"
proof -
  have "100 - py_round x 1 = of_int (1000 - round_half_even (x * 10 ^ 1)) / 10 ^ 1"
    by (simp add: py_round_def diff_divide_distrib)
  then show ?thesis
    by (simp only: py_round_fix)
qed

lemma over_under_step_entry:
  "over_under_step total_xg threshold results =
     results(str_float1 threshold \<mapsto> over_entry total_xg threshold)"
  by (simp add: over_under_step_def over_entry_def Let_def)

lemma predict_over_under_map:
  "predict_over_under home_xg away_xg =
     [''1.5'' \<mapsto> over_entry (home_xg + away_xg) 1.5,
      ''2.5'' \<mapsto> over_entry (home_xg + away_xg) 2.5,
      ''3.5'' \<mapsto> over_entry (home_xg + away_xg) 3.5]"
  by (simp only: predict_over_under_def Let_def fold_Cons fold_Nil comp_apply id_apply
      over_under_step_entry threshold_keys)

lemma over_entry_props:
  "ou_over (over_entry t T) = py_round ((1 - poisson_cdf (T - 0.5) t) * 100) 1 \<and>
   ou_under (over_entry t T) = 100 - ou_over (over_entry t T) \<and>
   ou_over (over_entry t T) + ou_under (over_entry t T) = 100 \<and>
   (ou_prediction (over_entry t T) = ''Over'' \<longleftrightarrow> 50 \<le> ou_over (over_entry t T)) \<and>
   (ou_prediction (over_entry t T) = ''Under'' \<longleftrightarrow> ou_over (over_entry t T) < 50)"
  using py_round_complement [of "(1 - poisson_cdf (T - 0.5) t) * 100"]
  by (simp add: over_entry_def Let_def)

lemma over_under_lookup:
  "predict_over_under home_xg away_xg ''1.5'' = Some (over_entry (home_xg + away_xg) 1.5)"
  "predict_over_under home_xg away_xg ''2.5'' = Some (over_entry (home_xg + away_xg) 2.5)"
  "predict_over_under home_xg away_xg ''3.5'' = Some (over_entry (home_xg + away_xg) 3.5)"
  by (simp_all add: predict_over_under_map)

lemma over_under_dom:
  "dom (predict_over_under home_xg away_xg) = {''1.5'', ''2.5'', ''3.5''}"
  by (auto simp add: predict_over_under_map)





lemma over_under_estimator:
  assumes "0 \<le> home_xg" and "0 \<le> away_xg" and "T = 1.5 \<or> T = 2.5 \<or> T = 3.5"
  shows "(\<exists>e. predict_over_under home_xg away_xg (str_float1 T) = Some e \<and>
              ou_over e = py_round ((1 - poisson_cdf (T - 0.5) (home_xg + away_xg)) * 100) 1 \<and>
              ou_under e = 100 - ou_over e \<and>
              ou_over e + ou_under e = 100 \<and>
              (ou_prediction e = ''Over'' \<longleftrightarrow> 50 \<le> ou_over e) \<and>
              (ou_prediction e = ''Under'' \<longleftrightarrow> ou_over e < 50)) \<and>
         str_float1 1.5 = ''1.5'' \<and> str_float1 2.5 = ''2.5'' \<and> str_float1 3.5 = ''3.5'' \<and>
         dom (predict_over_under home_xg away_xg) = {''1.5'', ''2.5'', ''3.5''}"
proof -
  have "predict_over_under home_xg away_xg (str_float1 T) = Some (over_entry (home_xg + away_xg) T)"
    using assms(3) by (auto simp only: threshold_keys over_under_lookup)
  then show ?thesis
    using over_entry_props [of "home_xg + away_xg" T] threshold_keys
      over_under_dom [of home_xg away_xg]
    by blast
qed

lemma pipeline_over_under:
  assumes v: "valid_team home_data \<and> valid_team away_data" and T: "T = 1.5 \<or> T = 2.5 \<or> T = 3.5"
  shows "\<exists>p e. predict_match_outcome home_data away_data = Inr p \<and>
                 over_under p (str_float1 T) = Some e \<and>
                 ou_under e = 100 - ou_over e \<and> ou_over e + ou_under e = 100 \<and>
                 (ou_prediction e = ''Over'' \<longleftrightarrow> 50 \<le> ou_over e) \<and>
                 (ou_prediction e = ''Under'' \<longleftrightarrow> ou_over e < 50)"
proof -
  from v obtain p where p: "predict_match_outcome home_data away_data = Inr p"
    and b: "over_under p =
       predict_over_under (home_xg_spec home_data away_data) (away_xg_spec home_data away_data)"
    using predict_valid_fields [of home_data away_data] by blast
  have "0 \<le> home_xg_spec home_data away_data" "0 \<le> away_xg_spec home_data away_data"
    using v xg_spec_nonneg [of home_data away_data] by simp_all
  from over_under_estimator [OF this T]
  obtain e where "over_under p (str_float1 T) = Some e"
    "ou_under e = 100 - ou_over e" "ou_over e + ou_under e = 100"
    "ou_prediction e = ''Over'' \<longleftrightarrow> 50 \<le> ou_over e"
    "ou_prediction e = ''Under'' \<longleftrightarrow> ou_over e < 50"
    unfolding b [symmetric] by (elim exE conjE) (rule that; assumption)
  with p show ?thesis
    by (intro exI [of _ p] exI [of _ e] conjI)
qed

text \<open>
  C3. For non-negative expected goals and every threshold \<open>T\<close> among 1.5, 2.5, 3.5, the
  result has an entry under the key that prints \<open>T\<close>; its over value is
  \<open>1 - cdf(T - 0.5, home_xg + away_xg)\<close> as a percentage rounded to 1 decimal; its under
  value is the complement \<open>100 - over\<close> (the source rounds the complement, which changes
  nothing), so over plus under is exactly 100; the label is \<open>Over\<close> exactly when over is
  at least 50, \<open>Under\<close> otherwise. The keys are \<open>1.5\<close>, \<open>2.5\<close>, \<open>3.5\<close> and no other.
  So it is for the over/under map that the engine returns for every pair of records
  with non-negative fields.
\<close>

theorem over_under_props:
  assumes "0 \<le> home_xg" and "0 \<le> away_xg" and "T = 1.5 \<or> T = 2.5 \<or> T = 3.5"
  shows "((\<exists>e. predict_over_under home_xg away_xg (str_float1 T) = Some e \<and>
              ou_over e = py_round ((1 - poisson_cdf (T - 0.5) (home_xg + away_xg)) * 100) 1 \<and>
              ou_under e = 100 - ou_over e \<and>
              ou_over e + ou_under e = 100 \<and>
              (ou_prediction e = ''Over'' \<longleftrightarrow> 50 \<le> ou_over e) \<and>
              (ou_prediction e = ''Under'' \<longleftrightarrow> ou_over e < 50)) \<and>
         str_float1 1.5 = ''1.5'' \<and> str_float1 2.5 = ''2.5'' \<and> str_float1 3.5 = ''3.5'' \<and>
         dom (predict_over_under home_xg away_xg) = {''1.5'', ''2.5'', ''3.5''}) \<and>
         (valid_team home_data \<and> valid_team away_data \<longrightarrow>
            (\<exists>p e. predict_match_outcome home_data away_data = Inr p \<and>
                 over_under p (str_float1 T) = Some e \<and>
                 ou_under e = 100 - ou_over e \<and> ou_over e + ou_under e = 100 \<and>
                 (ou_prediction e = ''Over'' \<longleftrightarrow> 50 \<le> ou_over e) \<and>
                 (ou_prediction e = ''Under'' \<longleftrightarrow> ou_over e < 50)))"
  by (rule conjI, rule over_under_estimator [OF assms], rule impI, rule pipeline_over_under, assumption, rule assms(3))

theorem over_under_props_witness:
  "(0::real) \<le> 1.5 \<and> (0::real) \<le> 1.2 \<and>
   (\<exists>e. predict_over_under 1.5 1.2 ''2.5'' = Some e \<and>
        ou_over e = py_round ((1 - poisson_cdf (2.5 - 0.5) (1.5 + 1.2)) * 100) 1 \<and>
        ou_over e + ou_under e = 100) \<and>
   valid_team default_home \<and> valid_team default_away \<and>
   (\<exists>p e. predict_match_outcome default_home default_away = Inr p \<and>
        over_under p ''2.5'' = Some e \<and> ou_over e + ou_under e = 100)"
proof -
  have h: "(0::real) \<le> 1.5" "(0::real) \<le> 1.2"
    and T: "(2.5::real) = 1.5 \<or> (2.5::real) = 2.5 \<or> (2.5::real) = 3.5"
    by simp_all
  note t = over_under_props [OF h T, of default_home default_away, unfolded threshold_keys]
  from conjunct1 [OF conjunct1 [OF t]]
  obtain e where "predict_over_under 1.5 1.2 ''2.5'' = Some e"
    "ou_over e = py_round ((1 - poisson_cdf (2.5 - 0.5) (1.5 + 1.2)) * 100) 1"
    "ou_over e + ou_under e = 100"
    by (elim exE conjE) (rule that; assumption)
  then have a: "\<exists>e. predict_over_under 1.5 1.2 ''2.5'' = Some e \<and>
        ou_over e = py_round ((1 - poisson_cdf (2.5 - 0.5) (1.5 + 1.2)) * 100) 1 \<and>
        ou_over e + ou_under e = 100"
    by (intro exI [of _ e] conjI)
  have v: "valid_team default_home \<and> valid_team default_away"
    using valid_defaults by (intro conjI)
  from mp [OF conjunct2 [OF t] v]
  obtain p e where "predict_match_outcome default_home default_away = Inr p"
    "over_under p ''2.5'' = Some e" "ou_over e + ou_under e = 100"
    by (elim exE conjE) (rule that; assumption)
  then have b: "\<exists>p e. predict_match_outcome default_home default_away = Inr p \<and>
        over_under p ''2.5'' = Some e \<and> ou_over e + ou_under e = 100"
    by (intro exI [of _ p] exI [of _ e] conjI)
  from h a valid_defaults b show ?thesis
    by (intro conjI)
qed


lemma py_round_small:
  assumes "- 0.04 \<le> x" "x \<le> 0.04"
  shows "py_round x 1 = 0"
proof -
  have "py_round (- 0.04) 1 \<le> py_round x 1" "py_round x 1 \<le> py_round 0.04 1"
    using assms by (auto intro: py_round_mono)
  moreover have "py_round (- 0.04) 1 = 0" "py_round 0.04 1 = 0"
    by (simp_all add: py_round_def round_half_even_def)
  ultimately show ?thesis
    by simp
qed

lemma exp_small_bounds:
  "0.98 \<le> exp (- (0.02::real))" "exp (- (0.02::real)) * 1.02 \<le> 1"
proof -
  show "0.98 \<le> exp (- (0.02::real))"
    using exp_ge_add_one_self [of "- (0.02::real)"] by simp
  have "1.02 \<le> exp (0.02::real)"
    using exp_ge_add_one_self [of "0.02::real"] by simp
  then have "exp (- (0.02::real)) * 1.02 \<le> exp (- (0.02::real)) * exp (0.02::real)"
    by (intro mult_left_mono) simp_all
  also have "\<dots> = 1"
    by (simp add: exp_minus)
  finally show "exp (- (0.02::real)) * 1.02 \<le> 1" .
qed

lemma small_rate_arith:
  fixes e :: real
  assumes "0.98 \<le> e" "e * 1.02 \<le> 1"
  shows "- 0.04 \<le> (1 - (e + e * 0.02)) * 100 \<and> (1 - (e + e * 0.02)) * 100 \<le> 0.04"
    and "- 0.04 \<le> (1 - (e + e * 0.02 + e * 0.0002)) * 100 \<and>
         (1 - (e + e * 0.02 + e * 0.0002)) * 100 \<le> 0.04"
    and "- 0.04 \<le> (1 - (e + e * 0.02 + e * 0.0002 + e * (0.000008 / 6))) * 100 \<and>
         (1 - (e + e * 0.02 + e * 0.0002 + e * (0.000008 / 6))) * 100 \<le> 0.04"
  using assms by (simp_all add: algebra_simps)

lemma over_entry_small_rate:
  "ou_over (over_entry 0.02 1.5) = 0" "ou_over (over_entry 0.02 2.5) = 0"
  "ou_over (over_entry 0.02 3.5) = 0"
proof -
  define e where "e = exp (- (0.02::real))"
  have b: "0.98 \<le> e" "e * 1.02 \<le> 1"
    unfolding e_def by (rule exp_small_bounds)+
  have p: "poisson_mass 0 0.02 = e" "poisson_mass 1 0.02 = e * 0.02"
    "poisson_mass 2 0.02 = e * 0.0002" "poisson_mass 3 0.02 = e * (0.000008 / 6)"
    by (simp_all add: poisson_mass_def e_def eval_nat_numeral)
  note a = small_rate_arith [OF b]
  show "ou_over (over_entry 0.02 1.5) = 0"
    unfolding over_entry_def Let_def over_under_entry.simps poisson_cdf_thresholds p
    using a(1) by (intro py_round_small) simp_all
  show "ou_over (over_entry 0.02 2.5) = 0"
    unfolding over_entry_def Let_def over_under_entry.simps poisson_cdf_thresholds p
    using a(2) by (intro py_round_small) simp_all
  show "ou_over (over_entry 0.02 3.5) = 0"
    unfolding over_entry_def Let_def over_under_entry.simps poisson_cdf_thresholds p
    using a(3) by (intro py_round_small) simp_all
qed

text \<open>
  The same happens at a small positive rate: at the rates \<open>(0.02, 0)\<close> the three over
  percentages are all \<open>0.0\<close> after rounding.
\<close>

lemma over_saturates_small_rate:
  "map_option ou_over (predict_over_under 0.02 0 ''1.5'') = Some 0 \<and>
   map_option ou_over (predict_over_under 0.02 0 ''2.5'') = Some 0 \<and>
   map_option ou_over (predict_over_under 0.02 0 ''3.5'') = Some 0"
proof -
  have z: "over_entry (0.02 + 0) T = over_entry 0.02 T" for T
    by simp
  show ?thesis
    unfolding over_under_lookup z option.map over_entry_small_rate by (intro conjI refl)
qed



subsection \<open>Most likely scorelines\<close>

lemma fold_append_one: "fold (\<lambda>a acc. acc @ [g a]) xs acc = acc @ map g xs"
  by (induction xs arbitrary: acc) simp_all

lemma fold_append_nested:
  "fold (\<lambda>h. fold (\<lambda>a acc. acc @ [g h a]) js) hs acc = acc @ concat (map (\<lambda>h. map (g h) js) hs)"
  by (induction hs arbitrary: acc) (simp_all add: fold_append_one)

lemma map_product_concat:
  "map F (List.product hs js) = concat (map (\<lambda>h. map (\<lambda>a. F (h, a)) js) hs)"
  by (induction hs) simp_all

lemma scoreline_probs_grid:
  "scoreline_probs home_xg away_xg =
     map (\<lambda>c. scoreline_cell home_xg away_xg (fst c) (snd c)) grid_cells"
  unfolding scoreline_probs_def grid_cells_def fold_append_nested map_product_concat
  by simp

lemma insort_key_map:
  "insort_key f (g x) (map g ys) = map g (insort_key (\<lambda>a. f (g a)) x ys)"
  by (induction ys) simp_all

lemma sort_key_map: "sort_key f (map g xs) = map g (sort_key (\<lambda>a. f (g a)) xs)"
  by (induction xs) (simp_all add: insort_key_map)

lemma insort_key_stable:
  assumes "sorted (map f ys)"
    and "sorted_wrt (\<lambda>c d. f c < f d \<or> (f c = f d \<and> L c d)) ys"
    and "\<forall>y\<in>set ys. L x y"
  shows "sorted_wrt (\<lambda>c d. f c < f d \<or> (f c = f d \<and> L c d)) (insort_key f x ys)"
  using assms
proof (induction ys)
  case Nil
  then show ?case by simp
next
  case (Cons y ys)
  show ?case
  proof (cases "f x \<le> f y")
    case True
    have "f x \<le> f z" if "z \<in> set (y # ys)" for z
      using that True Cons.prems(1) by auto
    then have "f x < f z \<or> (f x = f z \<and> L x z)" if "z \<in> set (y # ys)" for z
      using that Cons.prems(3) by (metis le_less)
    then show ?thesis
      using True Cons.prems(2) by simp
  next
    case False
    then have "f y < f x" by simp
    moreover have "sorted_wrt (\<lambda>c d. f c < f d \<or> (f c = f d \<and> L c d)) (insort_key f x ys)"
      using Cons by simp
    ultimately show ?thesis
      using False Cons.prems(2) by (auto simp add: set_insort_key)
  qed
qed

lemma sort_key_stable_wrt:
  assumes "sorted_wrt L xs"
  shows "sorted_wrt (\<lambda>c d. f c < f d \<or> (f c = f d \<and> L c d)) (sort_key f xs)"
  using assms
proof (induction xs)
  case Nil
  then show ?case by simp
next
  case (Cons x xs)
  then show ?case
    by (simp add: insort_key_stable)
qed

lemma grid_cells_sorted: "sorted_wrt lex_earlier grid_cells"
  unfolding grid_cells_def lex_earlier_def
  by (simp add: upt_rec)

lemma grid_cells_length: "length grid_cells = 36"
  by (simp add: grid_cells_def)

lemma grid_cells_distinct: "distinct grid_cells"
  by (simp add: grid_cells_def distinct_product)

lemma grid_cells_set: "set grid_cells = {0..<6} \<times> {0..<6}"
  by (simp add: grid_cells_def)

lemma predict_scorelines_ranking:
  "predict_scorelines home_xg away_xg =
     map (reported_entry home_xg away_xg) (take 3 (ranking home_xg away_xg))"
proof -
  have key: "(\<lambda>c. - sl_probability (scoreline_cell home_xg away_xg (fst c) (snd c))) =
             (\<lambda>c. - joint_prob home_xg away_xg c)"
    by (simp add: scoreline_cell_def joint_prob_def Let_def)
  have upd: "(\<lambda>scoreline. scoreline\<lparr>sl_probability := py_round (sl_probability scoreline * 100) 1\<rparr>) \<circ>
             (\<lambda>c. scoreline_cell home_xg away_xg (fst c) (snd c)) = reported_entry home_xg away_xg"
    by (rule ext) (simp add: scoreline_cell_def reported_entry_def joint_prob_def Let_def)
  show ?thesis
    unfolding predict_scorelines_def Let_def scoreline_probs_grid sort_key_map key take_map map_map upd
      ranking_def ..
qed

lemma ranking_sorted: "sorted_wrt (ranks_before home_xg away_xg) (ranking home_xg away_xg)"
proof -
  have "sorted_wrt (\<lambda>c d. - joint_prob home_xg away_xg c < - joint_prob home_xg away_xg d \<or>
                      (- joint_prob home_xg away_xg c = - joint_prob home_xg away_xg d \<and> lex_earlier c d))
          (ranking home_xg away_xg)"
    unfolding ranking_def by (rule sort_key_stable_wrt) (rule grid_cells_sorted)
  then show ?thesis
    by (rule sorted_wrt_mono_rel [rotated]) (auto simp add: ranks_before_def)
qed

lemma ranking_perm:
  "distinct (ranking home_xg away_xg)" "set (ranking home_xg away_xg) = set grid_cells"
  "length (ranking home_xg away_xg) = 36"
  by (simp_all add: ranking_def grid_cells_distinct grid_cells_length)

lemma reported_sorted:
  "sorted_wrt (\<lambda>x y. sl_probability x \<ge> sl_probability y) (predict_scorelines home_xg away_xg)"
proof -
  have "sorted_wrt (\<lambda>c d. sl_probability (reported_entry home_xg away_xg c) \<ge>
                         sl_probability (reported_entry home_xg away_xg d))
          (ranking home_xg away_xg)"
    using ranking_sorted [of home_xg away_xg]
    by (rule sorted_wrt_mono_rel [rotated])
       (auto simp add: ranks_before_def reported_entry_def intro!: py_round_mono)
  then have "sorted_wrt (\<lambda>c d. sl_probability (reported_entry home_xg away_xg c) \<ge>
                         sl_probability (reported_entry home_xg away_xg d))
          (take 3 (ranking home_xg away_xg))"
    by (rule sorted_wrt_take)
  then show ?thesis
    unfolding predict_scorelines_ranking sorted_wrt_map .
qed

lemma scorelines_zero:
  "predict_scorelines 0 0 =
     [\<lparr>sl_scoreline = ''0-0'', sl_probability = 100\<rparr>,
      \<lparr>sl_scoreline = ''0-1'', sl_probability = 0\<rparr>,
      \<lparr>sl_scoreline = ''0-2'', sl_probability = 0\<rparr>]"
  unfolding predict_scorelines_ranking ranking_def grid_cells_def
  by (simp add: upt_rec joint_prob_def poisson_pmf_zero_rate fl_mul_zero fl_mul_one reported_entry_def
      py_round_def round_half_even_def digit_char_def char_of_def bit_0)

lemma scorelines_estimator:
  assumes "0 \<le> home_xg" and "0 \<le> away_xg"
  shows "scoreline_probs home_xg away_xg =
           map (\<lambda>c. \<lparr>sl_scoreline = str_nat (fst c) @ ''-'' @ str_nat (snd c),
                      sl_probability = joint_prob home_xg away_xg c\<rparr>) grid_cells \<and>
         length grid_cells = 36 \<and> set grid_cells = {0..<6} \<times> {0..<6} \<and>
         sorted_wrt lex_earlier grid_cells \<and>
         (\<exists>r. distinct r \<and> set r = set grid_cells \<and>
              sorted_wrt (ranks_before home_xg away_xg) r \<and>
              predict_scorelines home_xg away_xg = map (reported_entry home_xg away_xg) (take 3 r)) \<and>
         length (predict_scorelines home_xg away_xg) = 3 \<and>
         sorted_wrt (\<lambda>x y. sl_probability x \<ge> sl_probability y) (predict_scorelines home_xg away_xg)"
proof (intro conjI)
  show "scoreline_probs home_xg away_xg =
           map (\<lambda>c. \<lparr>sl_scoreline = str_nat (fst c) @ ''-'' @ str_nat (snd c),
                      sl_probability = joint_prob home_xg away_xg c\<rparr>) grid_cells"
    by (simp add: scoreline_probs_grid scoreline_cell_def joint_prob_def Let_def)
  show "\<exists>r. distinct r \<and> set r = set grid_cells \<and>
              sorted_wrt (ranks_before home_xg away_xg) r \<and>
              predict_scorelines home_xg away_xg = map (reported_entry home_xg away_xg) (take 3 r)"
    using ranking_perm(1,2) [of home_xg away_xg] ranking_sorted [of home_xg away_xg]
      predict_scorelines_ranking [of home_xg away_xg]
    by blast
  show "length (predict_scorelines home_xg away_xg) = 3"
    by (simp add: predict_scorelines_ranking ranking_perm(3))
qed (rule grid_cells_length grid_cells_set grid_cells_sorted reported_sorted)+

lemma pipeline_scorelines:
  assumes v: "valid_team home_data \<and> valid_team away_data"
  shows "\<exists>p r. predict_match_outcome home_data away_data = Inr p \<and>
                 distinct r \<and> set r = set grid_cells \<and>
                 sorted_wrt (ranks_before (home_xg_spec home_data away_data)
                               (away_xg_spec home_data away_data)) r \<and>
                 scorelines p =
                   map (reported_entry (home_xg_spec home_data away_data)
                          (away_xg_spec home_data away_data)) (take 3 r) \<and>
                 length (scorelines p) = 3 \<and>
                 sorted_wrt (\<lambda>x y. sl_probability x \<ge> sl_probability y) (scorelines p)"
proof -
  from v obtain p where p: "predict_match_outcome home_data away_data = Inr p"
    and b: "scorelines p =
       predict_scorelines (home_xg_spec home_data away_data) (away_xg_spec home_data away_data)"
    using predict_valid_fields [of home_data away_data] by blast
  have "0 \<le> home_xg_spec home_data away_data" "0 \<le> away_xg_spec home_data away_data"
    using v xg_spec_nonneg [of home_data away_data] by simp_all
  from scorelines_estimator [OF this]
  obtain r where "distinct r" "set r = set grid_cells"
    "sorted_wrt (ranks_before (home_xg_spec home_data away_data) (away_xg_spec home_data away_data)) r"
    "scorelines p =
       map (reported_entry (home_xg_spec home_data away_data) (away_xg_spec home_data away_data))
         (take 3 r)"
    "length (scorelines p) = 3"
    "sorted_wrt (\<lambda>x y. sl_probability x \<ge> sl_probability y) (scorelines p)"
    unfolding b [symmetric] by (elim exE conjE) (rule that; assumption)
  with p show ?thesis
    by (intro exI [of _ p] exI [of _ r] conjI)
qed

text \<open>
  C4. For non-negative expected goals, the ranker builds one entry per cell of the
  6 x 6 grid (goals 0 to 5 each), 36 entries in ascending lexicographic order of
  (home goals, away goals), each with the text \<open>home-away\<close> and the joint Poisson
  probability. The stable descending sort leaves the cells in an order in which every
  cell is followed only by cells of lower probability or of equal probability and later
  in the lexicographic order. The result is the first 3 cells of that order, each with
  its text and its probability as a percentage rounded to 1 decimal: exactly 3 entries,
  non-increasing by the reported probability. So it is for the scorelines that the
  engine returns for every pair of records with non-negative fields.
\<close>

theorem scorelines_props:
  assumes "0 \<le> home_xg" and "0 \<le> away_xg"
  shows "(scoreline_probs home_xg away_xg =
           map (\<lambda>c. \<lparr>sl_scoreline = str_nat (fst c) @ ''-'' @ str_nat (snd c),
                      sl_probability = joint_prob home_xg away_xg c\<rparr>) grid_cells \<and>
         length grid_cells = 36 \<and> set grid_cells = {0..<6} \<times> {0..<6} \<and>
         sorted_wrt lex_earlier grid_cells \<and>
         (\<exists>r. distinct r \<and> set r = set grid_cells \<and>
              sorted_wrt (ranks_before home_xg away_xg) r \<and>
              predict_scorelines home_xg away_xg = map (reported_entry home_xg away_xg) (take 3 r)) \<and>
         length (predict_scorelines home_xg away_xg) = 3 \<and>
         sorted_wrt (\<lambda>x y. sl_probability x \<ge> sl_probability y) (predict_scorelines home_xg away_xg)) \<and>
         (valid_team home_data \<and> valid_team away_data \<longrightarrow>
            (\<exists>p r. predict_match_outcome home_data away_data = Inr p \<and>
                 distinct r \<and> set r = set grid_cells \<and>
                 sorted_wrt (ranks_before (home_xg_spec home_data away_data)
                               (away_xg_spec home_data away_data)) r \<and>
                 scorelines p =
                   map (reported_entry (home_xg_spec home_data away_data)
                          (away_xg_spec home_data away_data)) (take 3 r) \<and>
                 length (scorelines p) = 3 \<and>
                 sorted_wrt (\<lambda>x y. sl_probability x \<ge> sl_probability y) (scorelines p)))"
  by (rule conjI, rule scorelines_estimator [OF assms], rule impI, rule pipeline_scorelines, assumption)

theorem scorelines_props_witness:
  "(0::real) \<le> 0 \<and> length (predict_scorelines 0 0) = 3 \<and>
   predict_scorelines 0 0 =
     [\<lparr>sl_scoreline = ''0-0'', sl_probability = 100\<rparr>,
      \<lparr>sl_scoreline = ''0-1'', sl_probability = 0\<rparr>,
      \<lparr>sl_scoreline = ''0-2'', sl_probability = 0\<rparr>] \<and>
   valid_team default_home \<and> valid_team default_away \<and>
   (\<exists>p. predict_match_outcome default_home default_away = Inr p \<and> length (scorelines p) = 3)"
proof -
  have h: "(0::real) \<le> 0"
    by simp
  note t = scorelines_props [OF h h, of default_home default_away]
  from conjunct1 [OF t] have a: "length (predict_scorelines 0 0) = 3"
    by (elim exE conjE)
  have v: "valid_team default_home \<and> valid_team default_away"
    using valid_defaults by (intro conjI)
  from mp [OF conjunct2 [OF t] v]
  obtain p where "predict_match_outcome default_home default_away = Inr p" "length (scorelines p) = 3"
    by (elim exE conjE) (rule that; assumption)
  then have b: "\<exists>p. predict_match_outcome default_home default_away = Inr p \<and> length (scorelines p) = 3"
    by (intro exI [of _ p] conjI)
  from h a scorelines_zero valid_defaults b show ?thesis
    by (intro conjI)
qed

end
